theory Spec2Isabelle
  imports Complex_Main "HOL-Library.Signed_Division"
begin

section \<open>paps: pagination and column flow (src/paps/src/paps.c)\<close>

text \<open>
  Conventions of the embedding.
  \<^item> A C \<^verbatim>\<open>int\<close> is an \<^typ>\<open>int\<close>; signed overflow is undefined in C and no
    property below depends on it. C's \<^verbatim>\<open>/\<close> on ints truncates towards zero
    and is written \<open>sdiv\<close>.
  \<^item> A C \<^verbatim>\<open>double\<close> is a \<^typ>\<open>real\<close>. The result of an operation on doubles is
    the exact result rounded to a double by the machine. Where such a result is
    converted to an int the last bit of it matters, and the rounding is written
    out: it is the parameter \<open>rnd\<close> of the definitions, about which nothing is
    assumed. Where the result is only printed, the rounding is left out. The
    conversion of a double to an int, which truncates towards zero, is
    \<open>double_to_int\<close>; a C int converted to a double is the same number.
  \<^item> A \<^verbatim>\<open>gboolean\<close> is a \<^typ>\<open>bool\<close>.
  \<^item> Pango is an external library. A \<^verbatim>\<open>PangoLayoutLine\<close> is the text of the
    line with the two rectangles that \<^verbatim>\<open>pango_layout_line_get_extents\<close>
    reports for it; a \<^verbatim>\<open>PangoLayout\<close> is the list of its lines.
\<close>

subsection \<open>Data\<close>

definition PANGO_SCALE :: int where
  \<comment> \<open>Pango's macro: Pango units per device unit.\<close>
  "PANGO_SCALE = 1024"

type_synonym rounding = "real \<Rightarrow> real"

definition double_to_int :: "real \<Rightarrow> int" where
  "double_to_int d = (if 0 \<le> d then \<lfloor>d\<rfloor> else \<lceil>d\<rceil>)"

datatype paper_type_t = PAPER_TYPE_A4 | PAPER_TYPE_US_LETTER | PAPER_TYPE_US_LEGAL

fun paper_sizes :: "paper_type_t \<Rightarrow> real \<times> real" where
  "paper_sizes PAPER_TYPE_A4 = (595.28, 841.89)"
| "paper_sizes PAPER_TYPE_US_LETTER = (612, 792)"
| "paper_sizes PAPER_TYPE_US_LEGAL = (612, 1008)"

datatype PangoDirection =
  PANGO_DIRECTION_LTR | PANGO_DIRECTION_RTL | PANGO_DIRECTION_TTB_LTR
| PANGO_DIRECTION_TTB_RTL | PANGO_DIRECTION_WEAK_LTR | PANGO_DIRECTION_WEAK_RTL
| PANGO_DIRECTION_NEUTRAL

record PangoRectangle =
  rect_x :: int
  rect_y :: int
  rect_width :: int
  rect_height :: int

record PangoLayoutLine =
  line_text :: string
  extents_ink :: PangoRectangle
  extents_logical :: PangoRectangle

text \<open>
  \<^verbatim>\<open>page_layout_t\<close>. The fields \<^verbatim>\<open>do_draw_header\<close>, \<^verbatim>\<open>do_draw_footer\<close> and
  \<^verbatim>\<open>do_draw_contour\<close> are never written nor read by the program and are left out.
\<close>

record page_layout_t =
  pt_to_pixel :: real
  pixel_to_pt :: real
  column_width :: int
  column_height :: int
  num_columns :: int
  gutter_width :: int
  top_margin :: int
  bottom_margin :: int
  left_margin :: int
  right_margin :: int
  page_width :: int
  page_height :: int
  header_ypos :: int
  header_sep :: int
  header_height :: int
  footer_height :: int
  do_duplex :: bool
  do_tumble :: bool
  do_landscape :: bool
  do_justify :: bool
  do_separation_line :: bool
  pango_dir :: PangoDirection
  filename :: string
  header_font_desc :: string

record LineLink =
  pango_line :: PangoLayoutLine
  logical_rect :: PangoRectangle
  ink_rect :: PangoRectangle
  formfeed :: int

text \<open>\<^verbatim>\<open>struct _Paragraph\<close>; its \<^verbatim>\<open>layout\<close> is the list of the lines Pango broke it into.\<close>

record Paragraph =
  para_text :: string
  para_length :: int
  para_height :: int
  para_formfeed :: int
  para_layout :: "PangoLayoutLine list"

subsection \<open>\<^verbatim>\<open>split_paragraphs_into_lines\<close>\<close>

text \<open>
  The inner \<^verbatim>\<open>for\<close> loop over the lines of one paragraph: \<open>i\<close> counts the lines
  already taken, \<open>n\<close> is \<^verbatim>\<open>para_num_lines\<close>, and each new link is prepended to
  \<open>line_list\<close>.
\<close>

fun split_para_loop :: "Paragraph \<Rightarrow> int \<Rightarrow> int \<Rightarrow> PangoLayoutLine list \<Rightarrow> LineLink list \<Rightarrow> LineLink list" where
  "split_para_loop para n i [] line_list = line_list"
| "split_para_loop para n i (pline # rest) line_list =
     split_para_loop para n (i + 1) rest
       (\<lparr> pango_line = pline,
          logical_rect = extents_logical pline,
          ink_rect = extents_ink pline,
          formfeed = (if para_formfeed para \<noteq> 0 \<and> i = n - 1 then 1 else 0) \<rparr> # line_list)"

fun split_paragraphs_loop :: "Paragraph list \<Rightarrow> LineLink list \<Rightarrow> LineLink list" where
  "split_paragraphs_loop [] line_list = line_list"
| "split_paragraphs_loop (para # par_list) line_list =
     split_paragraphs_loop par_list
       (split_para_loop para (int (length (para_layout para))) 0 (para_layout para) line_list)"

definition split_paragraphs_into_lines :: "Paragraph list \<Rightarrow> LineLink list" where
  "split_paragraphs_into_lines paragraphs = rev (split_paragraphs_loop paragraphs [])"

subsection \<open>\<^verbatim>\<open>output_pages\<close>\<close>

text \<open>
  \<^verbatim>\<open>output_pages\<close> acts on the output only by calling five routines. Its behaviour is
  the sequence of these calls with their arguments, and the page count it returns.
\<close>

datatype event =
  StartPage int  \<comment> \<open>\<^verbatim>\<open>start_page(OUT, page_idx)\<close>\<close>
| PageHeader int  \<comment> \<open>\<^verbatim>\<open>draw_page_header_line_to_page(OUT, FALSE, page_layout, ctx, page_idx)\<close>\<close>
| EjectColumn int  \<comment> \<open>\<^verbatim>\<open>eject_column(OUT, page_layout, column_idx)\<close>\<close>
| EjectPage  \<comment> \<open>\<^verbatim>\<open>eject_page(OUT)\<close>\<close>
| DrawLine int int PangoLayoutLine  \<comment> \<open>\<^verbatim>\<open>draw_line_to_page(OUT, column_idx, column_pos, page_layout, line)\<close>\<close>

text \<open>The local variables of \<^verbatim>\<open>output_pages\<close> that change in its loop.\<close>

record flow_state =
  column_idx :: int
  column_y_pos :: int
  page_idx :: int
  prev_line_link :: "LineLink option"

text \<open>
  The initial value of the local variable \<^verbatim>\<open>pango_column_height\<close>: the two products are
  taken in doubles, from left to right, and the result is converted to \<^verbatim>\<open>int\<close>.
\<close>

definition pango_column_height :: "rounding \<Rightarrow> page_layout_t \<Rightarrow> int" where
  "pango_column_height rnd pl =
     double_to_int
       (rnd (rnd (real_of_int (column_height pl) * pt_to_pixel pl) * real_of_int PANGO_SCALE))"

text \<open>The condition of the \<^verbatim>\<open>if\<close> under "Check if we need to move to next column".\<close>

definition need_next_column :: "rounding \<Rightarrow> page_layout_t \<Rightarrow> flow_state \<Rightarrow> LineLink \<Rightarrow> bool" where
  "need_next_column rnd pl s l \<longleftrightarrow>
     column_y_pos s + rect_height (logical_rect l) \<ge> pango_column_height rnd pl
     \<or> (case prev_line_link s of None \<Rightarrow> False | Some p \<Rightarrow> formfeed p \<noteq> 0)"

text \<open>The body of that \<^verbatim>\<open>if\<close>: the calls it makes and the state it leaves.\<close>

definition next_column :: "page_layout_t \<Rightarrow> bool \<Rightarrow> flow_state \<Rightarrow> event list \<times> flow_state" where
  "next_column pl need_header s =
     (let s1 = s\<lparr> column_idx := column_idx s + 1, column_y_pos := 0 \<rparr>
      in if column_idx s1 = num_columns pl
         then ([EjectPage, StartPage (page_idx s1 + 1)]
                 @ (if need_header then [PageHeader (page_idx s1 + 1)] else []),
               s1\<lparr> column_idx := 0, page_idx := page_idx s1 + 1 \<rparr>)
         else ([EjectColumn (column_idx s1)], s1))"

text \<open>One iteration of the \<^verbatim>\<open>while\<close> loop, for the line link \<open>l\<close>.\<close>

definition output_line :: "rounding \<Rightarrow> page_layout_t \<Rightarrow> bool \<Rightarrow> flow_state \<Rightarrow> LineLink \<Rightarrow> event list \<times> flow_state" where
  "output_line rnd pl need_header s l =
     (let (evs, s1) = (if need_next_column rnd pl s l then next_column pl need_header s else ([], s));
          column_pos = column_y_pos s1 + rect_height (logical_rect l)
      in (evs @ [DrawLine (column_idx s1) column_pos (pango_line l)],
          s1\<lparr> column_y_pos := column_pos, prev_line_link := Some l \<rparr>))"

fun output_lines :: "rounding \<Rightarrow> page_layout_t \<Rightarrow> bool \<Rightarrow> flow_state \<Rightarrow> LineLink list \<Rightarrow> event list \<times> int" where
  "output_lines rnd pl need_header s [] = ([EjectPage], page_idx s)"
| "output_lines rnd pl need_header s (l # pango_lines) =
     (let (evs, s') = output_line rnd pl need_header s l;
          (rest, n) = output_lines rnd pl need_header s' pango_lines
      in (evs @ rest, n))"

definition flow_start :: flow_state where
  "flow_start = \<lparr> column_idx = 0, column_y_pos = 0, page_idx = 1, prev_line_link = None \<rparr>"

definition output_pages :: "rounding \<Rightarrow> LineLink list \<Rightarrow> page_layout_t \<Rightarrow> bool \<Rightarrow> event list \<times> int" where
  "output_pages rnd pango_lines pl need_header =
     (let (evs, n) = output_lines rnd pl need_header flow_start pango_lines
      in (StartPage 1 # (if need_header then [PageHeader 1] else []) @ evs, n))"

subsection \<open>The routines that write the page bodies\<close>

text \<open>
  \<^verbatim>\<open>ps_pages_string\<close> is the list of the pieces appended to it, each piece named by the
  format that printed it with the values printed.
\<close>

datatype ps_item =
  PsPage int int  \<comment> \<open>\<^verbatim>\<open>%%Page: %d %d\<close>, \<^verbatim>\<open>paps_bop\<close>\<close>
| PsShowpage  \<comment> \<open>\<^verbatim>\<open>paps_eop\<close>, \<^verbatim>\<open>showpage\<close>\<close>
| PsColumnLine real real real real  \<comment> \<open>\<^verbatim>\<open>%f %f moveto %f %f lineto 0 setlinewidth stroke\<close>\<close>
| PsHeaderRule int real int real  \<comment> \<open>\<^verbatim>\<open>%d %f moveto %d %f lineto 0 setlinewidth stroke\<close>\<close>
| PsLayoutLine real real PangoLayoutLine  \<comment> \<open>\<^verbatim>\<open>paps_layout_line_to_postscript_strdup(paps, x_pos, y_pos, line)\<close>\<close>

text \<open>The arguments that \<^verbatim>\<open>g_strdup_printf\<close> prints into the markup of a page header.\<close>

record header_t =
  hdr_font_desc :: string
  hdr_date :: string
  hdr_filename :: string
  hdr_page :: int

text \<open>
  What the program reads from outside while it writes the pages: \<open>env_date k\<close> is the
  string that \<^verbatim>\<open>time\<close>, \<^verbatim>\<open>localtime\<close> and \<^verbatim>\<open>strftime\<close> yield at the \<open>k\<close>-th reading of
  the clock, and \<open>env_markup_lines\<close> is Pango laying out the header markup, whose three
  paragraphs are the lines 0, 1 and 2 of the layout.
\<close>

record environment =
  env_date :: "nat \<Rightarrow> string"
  env_markup_lines :: "header_t \<Rightarrow> PangoLayoutLine \<times> PangoLayoutLine \<times> PangoLayoutLine"

text \<open>The globals and the layout that the routines change.\<close>

record world =
  ps_pages_string :: "ps_item list"
  page_layout :: page_layout_t
  clock_reads :: nat

definition start_page :: "int \<Rightarrow> world \<Rightarrow> world" where
  "start_page pidx w = w\<lparr> ps_pages_string := ps_pages_string w @ [PsPage pidx pidx] \<rparr>"

definition eject_page :: "world \<Rightarrow> world" where
  "eject_page w = w\<lparr> ps_pages_string := ps_pages_string w @ [PsShowpage] \<rparr>"

text \<open>The column index that \<^verbatim>\<open>eject_column\<close> computes with, after its test of the direction.\<close>

definition eject_column_idx :: "page_layout_t \<Rightarrow> int \<Rightarrow> int" where
  "eject_column_idx pl cidx =
     (if pango_dir pl = PANGO_DIRECTION_RTL then num_columns pl - cidx else cidx)"

definition eject_column_x_pos :: "page_layout_t \<Rightarrow> int \<Rightarrow> real" where
  "eject_column_x_pos pl cidx =
     (let k = eject_column_idx pl cidx;
          total_gutter = (if k = 1 then 1.0 * real_of_int (gutter_width pl) / 2
                          else (real_of_int k + 1.5) * real_of_int (gutter_width pl))
      in real_of_int (left_margin pl + column_width pl * k) + total_gutter)"

definition eject_column :: "int \<Rightarrow> world \<Rightarrow> world" where
  "eject_column cidx w =
     (let pl = page_layout w
      in if \<not> do_separation_line pl then w
         else
           (let x_pos = eject_column_x_pos pl cidx;
                y_top = real_of_int (page_height pl - top_margin pl - header_height pl
                                       - header_sep pl sdiv 2);
                y_bot = real_of_int (bottom_margin pl - footer_height pl)
            in w\<lparr> ps_pages_string := ps_pages_string w @ [PsColumnLine x_pos y_top x_pos y_bot] \<rparr>))"

definition draw_line_y_pos :: "page_layout_t \<Rightarrow> int \<Rightarrow> real" where
  "draw_line_y_pos pl column_pos =
     real_of_int (page_height pl - top_margin pl - header_sep pl)
       - real_of_int (column_pos sdiv PANGO_SCALE) * pixel_to_pt pl"

definition draw_line_x_pos :: "page_layout_t \<Rightarrow> int \<Rightarrow> PangoLayoutLine \<Rightarrow> real" where
  "draw_line_x_pos pl cidx line =
     (let x_pos = real_of_int (left_margin pl + cidx * (column_width pl + gutter_width pl));
          x_pos = (if pango_dir pl = PANGO_DIRECTION_RTL
                   then real_of_int (left_margin pl
                          + (num_columns pl - 1 - cidx) * (column_width pl + gutter_width pl))
                   else x_pos)
      in if pango_dir pl = PANGO_DIRECTION_RTL
         then x_pos + (real_of_int (column_width pl)
                         - real_of_int (rect_width (extents_logical line))
                             / (pt_to_pixel pl * real_of_int PANGO_SCALE))
         else x_pos)"

definition draw_line_to_page :: "int \<Rightarrow> int \<Rightarrow> PangoLayoutLine \<Rightarrow> world \<Rightarrow> world" where
  "draw_line_to_page cidx column_pos line w =
     (let pl = page_layout w
      in w\<lparr> ps_pages_string := ps_pages_string w
               @ [PsLayoutLine (draw_line_x_pos pl cidx line) (draw_line_y_pos pl column_pos) line] \<rparr>)"

text \<open>
  \<^verbatim>\<open>draw_page_header_line_to_page\<close>. The value it returns, the height of the last header
  line, is not used by its callers and is left out.
\<close>

definition draw_page_header_line_to_page :: "rounding \<Rightarrow> environment \<Rightarrow> bool \<Rightarrow> int \<Rightarrow> world \<Rightarrow> world" where
  "draw_page_header_line_to_page rnd env is_footer page w =
     (let pl = page_layout w;
          header = \<lparr> hdr_font_desc = header_font_desc pl,
                     hdr_date = env_date env (clock_reads w),
                     hdr_filename = filename pl,
                     hdr_page = page \<rparr>;
          (line0, line1, line2) = env_markup_lines env header;
          x_pos0 = real_of_int (left_margin pl);
          height = double_to_int
                     (rnd (rnd (real_of_int (rect_height (extents_logical line0) sdiv PANGO_SCALE)
                                  * pixel_to_pt pl) / 3.0));
          y_pos = (if is_footer then real_of_int (bottom_margin pl)
                   else real_of_int (page_height pl - top_margin pl - height));
          pl' = (if is_footer then pl\<lparr> footer_height := height \<rparr>
                 else pl\<lparr> header_height := height \<rparr>);
          x_pos1 = (real_of_int (page_width pl)
                      - real_of_int (rect_width (extents_logical line1) sdiv PANGO_SCALE)
                          * pixel_to_pt pl) / 2;
          x_pos2 = real_of_int (page_width pl - right_margin pl)
                      - real_of_int (rect_width (extents_logical line2) sdiv PANGO_SCALE)
                          * pixel_to_pt pl;
          line_pos = real_of_int (page_height pl' - top_margin pl' - header_height pl'
                                    - header_sep pl' sdiv 2)
      in w\<lparr> ps_pages_string := ps_pages_string w
               @ [PsLayoutLine x_pos0 y_pos line0,
                  PsLayoutLine x_pos1 y_pos line1,
                  PsLayoutLine x_pos2 y_pos line2,
                  PsHeaderRule (left_margin pl') line_pos (page_width pl' - right_margin pl') line_pos],
             page_layout := pl',
             clock_reads := clock_reads w + 1 \<rparr>)"

text \<open>Carrying out the calls of \<^verbatim>\<open>output_pages\<close> in their order.\<close>

fun perform :: "rounding \<Rightarrow> environment \<Rightarrow> world \<Rightarrow> event \<Rightarrow> world" where
  "perform rnd env w (StartPage pidx) = start_page pidx w"
| "perform rnd env w (PageHeader pidx) = draw_page_header_line_to_page rnd env False pidx w"
| "perform rnd env w (EjectColumn cidx) = eject_column cidx w"
| "perform rnd env w EjectPage = eject_page w"
| "perform rnd env w (DrawLine cidx column_pos line) = draw_line_to_page cidx column_pos line w"

definition write_pages :: "rounding \<Rightarrow> environment \<Rightarrow> LineLink list \<Rightarrow> page_layout_t \<Rightarrow> bool \<Rightarrow> ps_item list" where
  "write_pages rnd env pango_lines pl need_header =
     ps_pages_string
       (foldl (perform rnd env) \<lparr> ps_pages_string = [], page_layout = pl, clock_reads = 0 \<rparr>
          (fst (output_pages rnd pango_lines pl need_header)))"

subsection \<open>The page layout computed by \<^verbatim>\<open>main\<close>\<close>

text \<open>The variables that the command line sets.\<close>

record options =
  opt_landscape :: bool
  opt_columns :: int
  opt_rtl :: bool
  opt_justify :: bool
  opt_paper :: paper_type_t
  opt_bottom_margin :: int
  opt_top_margin :: int
  opt_right_margin :: int
  opt_left_margin :: int
  opt_header :: bool
  opt_filename :: string

datatype fault = Division_by_zero

text \<open>
  The block of \<^verbatim>\<open>main\<close> under "Page layout". \<open>points_to_pango\<close> is the value of
  \<^verbatim>\<open>paps_postscript_points_to_pango(1)\<close>, a routine of libpaps. The only way this block
  does not reach its end is the integer division by \<^verbatim>\<open>num_columns\<close> when that is 0.
\<close>

definition main_page_layout :: "real \<Rightarrow> options \<Rightarrow> fault + page_layout_t" where
  "main_page_layout points_to_pango opts =
     (let gutter = 40;
          header_separation = 20;
          pw = double_to_int (fst (paper_sizes (opt_paper opts)));
          ph = double_to_int (snd (paper_sizes (opt_paper opts)));
          total_gutter_width = (if opt_columns opts = 1 then 0
                                else gutter * (opt_columns opts - 1));
          (pw, ph) = (if opt_landscape opts then (ph, pw) else (pw, ph));
          hsep = (if opt_header opts then header_separation else 0);
          ptp = points_to_pango / real_of_int PANGO_SCALE
      in if opt_columns opts = 0 then Inl Division_by_zero
         else Inr \<lparr>
           pt_to_pixel = ptp,
           pixel_to_pt = 1.0 / ptp,
           column_width = (pw - opt_left_margin opts - opt_right_margin opts - total_gutter_width)
                            sdiv opt_columns opts,
           column_height = ph - opt_top_margin opts - hsep - opt_bottom_margin opts,
           num_columns = opt_columns opts,
           gutter_width = gutter,
           top_margin = opt_top_margin opts,
           bottom_margin = opt_bottom_margin opts,
           left_margin = opt_left_margin opts,
           right_margin = opt_right_margin opts,
           page_width = pw,
           page_height = ph,
           header_ypos = opt_top_margin opts,
           header_sep = hsep,
           header_height = 0,
           footer_height = 0,
           do_duplex = True,
           do_tumble = True,
           do_landscape = opt_landscape opts,
           do_justify = opt_justify opts,
           do_separation_line = True,
           pango_dir = (if opt_rtl opts then PANGO_DIRECTION_RTL else PANGO_DIRECTION_LTR),
           filename = opt_filename opts,
           header_font_desc = ''Monospace Bold 12'' \<rparr>)"

text \<open>
  \<^verbatim>\<open>main\<close> from the layout on: the paragraphs are those that Pango shaped from the
  input text, and the pages are written for the lines of these paragraphs.
\<close>

definition main_pages :: "rounding \<Rightarrow> real \<Rightarrow> options \<Rightarrow> Paragraph list \<Rightarrow> fault + (event list \<times> int)" where
  "main_pages rnd points_to_pango opts paragraphs =
     (case main_page_layout points_to_pango opts of
        Inl f \<Rightarrow> Inl f
      | Inr pl \<Rightarrow> Inr (output_pages rnd (split_paragraphs_into_lines paragraphs) pl (opt_header opts)))"

subsection \<open>Notions used to state the properties\<close>

text \<open>A call that leaves the current column: for the next column of the page, or for a new page.\<close>

fun is_advance :: "event \<Rightarrow> bool" where
  "is_advance (EjectColumn k) = True"
| "is_advance EjectPage = True"
| "is_advance e = False"

fun is_page_marker :: "event \<Rightarrow> bool" where
  "is_page_marker (StartPage p) = True"
| "is_page_marker EjectPage = True"
| "is_page_marker e = False"

fun is_eject_column :: "event \<Rightarrow> bool" where
  "is_eject_column (EjectColumn k) = True"
| "is_eject_column e = False"

fun is_page_header :: "event \<Rightarrow> bool" where
  "is_page_header (PageHeader p) = True"
| "is_page_header e = False"

text \<open>The page numbers of the \<^verbatim>\<open>start_page\<close> calls, in the order of the calls.\<close>

fun started_pages :: "event list \<Rightarrow> int list" where
  "started_pages [] = []"
| "started_pages (StartPage p # es) = p # started_pages es"
| "started_pages (e # es) = started_pages es"

text \<open>The lines drawn, in the order of the calls.\<close>

fun drawn_lines :: "event list \<Rightarrow> PangoLayoutLine list" where
  "drawn_lines [] = []"
| "drawn_lines (DrawLine c p x # es) = x # drawn_lines es"
| "drawn_lines (e # es) = drawn_lines es"

text \<open>
  The number of \<^verbatim>\<open>eject_column\<close> calls of each page: \<open>k\<close> counts those of the page being
  read, and the count of a page is given out at its \<^verbatim>\<open>eject_page\<close>.
\<close>

fun column_advances :: "nat \<Rightarrow> event list \<Rightarrow> nat list" where
  "column_advances k [] = []"
| "column_advances k (EjectPage # es) = k # column_advances 0 es"
| "column_advances k (EjectColumn c # es) = column_advances (Suc k) es"
| "column_advances k (e # es) = column_advances k es"

text \<open>
  No line is split: a line drawn right after another line, hence not the first of its
  column, ends at or above the capacity \<open>cap\<close>. The position of a \<open>DrawLine\<close> is the
  cursor before the line plus the height of the line.
\<close>

fun lines_fit :: "int \<Rightarrow> event list \<Rightarrow> bool" where
  "lines_fit cap [] = True"
| "lines_fit cap (DrawLine c p x # DrawLine c' p' x' # es) =
     (p' \<le> cap \<and> lines_fit cap (DrawLine c' p' x' # es))"
| "lines_fit cap (e # es) = lines_fit cap es"

text \<open>
  The rule of the advance, read off a sequence of calls against the lines that it is to
  place: \<open>y\<close> is the cursor, \<open>prev\<close> the form feed flag of the line placed before, and
  \<open>moved\<close> says that the column has been left since that line. Between two lines the
  column is left at most once, and before the line is drawn; it is left if and only if
  the cursor plus the height of the line reaches \<open>cap\<close> or the line before carried a
  form feed. After the last line nothing but the closing \<^verbatim>\<open>eject_page\<close> is called.
\<close>

fun advance_rule :: "int \<Rightarrow> int \<Rightarrow> bool \<Rightarrow> bool \<Rightarrow> LineLink list \<Rightarrow> event list \<Rightarrow> bool" where
  "advance_rule cap y prev moved ls [] = False"
| "advance_rule cap y prev moved ls (EjectPage # es) =
     (\<not> moved \<and> (if ls = [] then es = [] else advance_rule cap y prev True ls es))"
| "advance_rule cap y prev moved ls (EjectColumn k # es) =
     (\<not> moved \<and> ls \<noteq> [] \<and> advance_rule cap y prev True ls es)"
| "advance_rule cap y prev moved ls (StartPage n # es) = advance_rule cap y prev moved ls es"
| "advance_rule cap y prev moved ls (PageHeader n # es) = advance_rule cap y prev moved ls es"
| "advance_rule cap y prev moved ls (DrawLine c p x # es) =
     (case ls of
        [] \<Rightarrow> False
      | l # ls' \<Rightarrow>
          (moved \<longleftrightarrow> (y + rect_height (logical_rect l) \<ge> cap \<or> prev))
          \<and> advance_rule cap ((if moved then 0 else y) + rect_height (logical_rect l))
                (formfeed l \<noteq> 0) False ls' es)"

text \<open>
  The offsets of a run are cumulative: the position of each \<open>DrawLine\<close> is the position of
  the line drawn before it in the same column, or 0 for the first line of a column, plus
  the height of the line; \<open>hs\<close> are the heights of the lines still to be drawn.
\<close>

fun cumulative_offsets :: "int \<Rightarrow> int list \<Rightarrow> event list \<Rightarrow> bool" where
  "cumulative_offsets y hs [] = (hs = [])"
| "cumulative_offsets y hs (DrawLine c p x # es) =
     (case hs of [] \<Rightarrow> False | h # hs' \<Rightarrow> p = y + h \<and> cumulative_offsets p hs' es)"
| "cumulative_offsets y hs (EjectColumn k # es) = cumulative_offsets 0 hs es"
| "cumulative_offsets y hs (EjectPage # es) = cumulative_offsets 0 hs es"
| "cumulative_offsets y hs (StartPage n # es) = cumulative_offsets y hs es"
| "cumulative_offsets y hs (PageHeader n # es) = cumulative_offsets y hs es"


text \<open>
  The capacity of a column as the exact product, in the unit of the line heights (Pango
  units), and as the product of the column height and \<^verbatim>\<open>pt_to_pixel\<close> alone.
\<close>

definition column_capacity_exact :: "page_layout_t \<Rightarrow> real" where
  "column_capacity_exact pl =
     real_of_int (column_height pl) * pt_to_pixel pl * real_of_int PANGO_SCALE"

definition column_capacity_unscaled :: "page_layout_t \<Rightarrow> real" where
  "column_capacity_unscaled pl = real_of_int (column_height pl) * pt_to_pixel pl"

fun is_column_line :: "ps_item \<Rightarrow> bool" where
  "is_column_line (PsColumnLine x1 y1 x2 y2) = True"
| "is_column_line i = False"

subsection \<open>Sample inputs\<close>

definition sample_layout :: "int \<Rightarrow> PangoDirection \<Rightarrow> page_layout_t" where
  "sample_layout n dir =
     \<lparr> pt_to_pixel = 1, pixel_to_pt = 1, column_width = 200, column_height = 100,
       num_columns = n, gutter_width = 40, top_margin = 36, bottom_margin = 36,
       left_margin = 36, right_margin = 36, page_width = 72 + 200 * n + 40 * (n - 1),
       page_height = 172, header_ypos = 36, header_sep = 0, header_height = 0,
       footer_height = 0, do_duplex = True, do_tumble = True, do_landscape = False,
       do_justify = False, do_separation_line = True, pango_dir = dir,
       filename = ''stdin'', header_font_desc = ''Monospace Bold 12'' \<rparr>"

definition sample_pango_line :: "string \<Rightarrow> int \<Rightarrow> int \<Rightarrow> PangoLayoutLine" where
  "sample_pango_line t w h =
     \<lparr> line_text = t,
       extents_ink = \<lparr> rect_x = 0, rect_y = 0, rect_width = w, rect_height = h \<rparr>,
       extents_logical = \<lparr> rect_x = 0, rect_y = 0, rect_width = w, rect_height = h \<rparr> \<rparr>"

definition sample_line :: "string \<Rightarrow> int \<Rightarrow> int \<Rightarrow> LineLink" where
  "sample_line t h ff =
     \<lparr> pango_line = sample_pango_line t 51200 h,
       logical_rect = extents_logical (sample_pango_line t 51200 h),
       ink_rect = extents_ink (sample_pango_line t 51200 h),
       formfeed = ff \<rparr>"

definition sample_paragraph :: "string list \<Rightarrow> int \<Rightarrow> Paragraph" where
  "sample_paragraph ts ff =
     \<lparr> para_text = concat ts, para_length = int (length (concat ts)), para_height = 0,
       para_formfeed = ff, para_layout = map (\<lambda>t. sample_pango_line t 51200 20480) ts \<rparr>"

definition sample_environment :: "string \<Rightarrow> environment" where
  "sample_environment date =
     \<lparr> env_date = (\<lambda>k. date),
       env_markup_lines = (\<lambda>h. (sample_pango_line (hdr_date h) 51200 12288,
                               sample_pango_line (hdr_filename h) 51200 12288,
                               sample_pango_line ''Page'' 51200 12288)) \<rparr>"

text \<open>
  In the samples every product and quotient of doubles that is converted to an int is
  itself a double, which the rounding leaves as it is.
\<close>

definition sample_rounding :: rounding where
  "sample_rounding d = d"

definition sample_options :: "int \<Rightarrow> int \<Rightarrow> options" where
  "sample_options n tm =
     \<lparr> opt_landscape = False, opt_columns = n, opt_rtl = False, opt_justify = False,
       opt_paper = PAPER_TYPE_A4, opt_bottom_margin = 36, opt_top_margin = tm,
       opt_right_margin = 36, opt_left_margin = 36, opt_header = False,
       opt_filename = ''stdin'' \<rparr>"

lemmas sample_defs =
  sample_layout_def sample_line_def sample_pango_line_def sample_paragraph_def
  sample_environment_def sample_options_def sample_rounding_def flow_start_def
  PANGO_SCALE_def double_to_int_def

subsection \<open>One iteration of the loop\<close>

lemma need_next_column_iff:
  "need_next_column rnd pl s l \<longleftrightarrow>
     column_y_pos s + rect_height (logical_rect l) \<ge> pango_column_height rnd pl
     \<or> (\<exists>p. prev_line_link s = Some p \<and> formfeed p \<noteq> 0)"
  by (auto simp: need_next_column_def split: option.splits)

lemma advances_next_column:
  "length (filter is_advance (fst (next_column pl nh s))) = 1"
  by (simp add: next_column_def Let_def)

lemma output_line_stay:
  "\<not> need_next_column rnd pl s l \<Longrightarrow>
     output_line rnd pl nh s l =
       ([DrawLine (column_idx s) (column_y_pos s + rect_height (logical_rect l)) (pango_line l)],
        s\<lparr> column_y_pos := column_y_pos s + rect_height (logical_rect l),
           prev_line_link := Some l \<rparr>)"
  by (simp add: output_line_def Let_def)

lemma output_line_move:
  "need_next_column rnd pl s l \<Longrightarrow>
     output_line rnd pl nh s l =
       (fst (next_column pl nh s)
          @ [DrawLine (column_idx (snd (next_column pl nh s))) (rect_height (logical_rect l))
               (pango_line l)],
        (snd (next_column pl nh s))\<lparr> column_y_pos := rect_height (logical_rect l),
                                       prev_line_link := Some l \<rparr>)"
  by (simp add: output_line_def next_column_def Let_def)

lemma output_lines_Cons:
  "output_lines rnd pl nh s (l # ls) =
     (fst (output_line rnd pl nh s l) @ fst (output_lines rnd pl nh (snd (output_line rnd pl nh s l)) ls),
      snd (output_lines rnd pl nh (snd (output_line rnd pl nh s l)) ls))"
  by (simp add: case_prod_beta)

declare output_lines.simps(2) [simp del]

lemma output_pages_eq:
  "output_pages rnd ls pl nh =
     (StartPage 1 # (if nh then [PageHeader 1] else []) @ fst (output_lines rnd pl nh flow_start ls),
      snd (output_lines rnd pl nh flow_start ls))"
  by (simp add: output_pages_def case_prod_beta)

lemma prev_after_output_line:
  "prev_line_link (snd (output_line rnd pl nh s l)) = Some l"
  by (cases "need_next_column rnd pl s l") (simp_all add: output_line_move output_line_stay)




subsection \<open>The lines of the paragraphs\<close>


lemma split_para_loop_lines:
  "map pango_line (rev (split_para_loop para n i xs acc)) = map pango_line (rev acc) @ xs"
  by (induction xs arbitrary: i acc) simp_all


lemma split_paragraphs_loop_lines:
  "map pango_line (rev (split_paragraphs_loop ps acc)) =
     map pango_line (rev acc) @ concat (map para_layout ps)"
  by (induction ps arbitrary: acc) (simp_all add: split_para_loop_lines)

subsection \<open>The three courses of an iteration\<close>

lemma output_line_column:
  assumes "need_next_column rnd pl s l" and "column_idx s + 1 \<noteq> num_columns pl"
  shows "fst (output_line rnd pl nh s l) =
           [EjectColumn (column_idx s + 1),
            DrawLine (column_idx s + 1) (rect_height (logical_rect l)) (pango_line l)]"
    and "column_idx (snd (output_line rnd pl nh s l)) = column_idx s + 1"
    and "page_idx (snd (output_line rnd pl nh s l)) = page_idx s"
    and "column_y_pos (snd (output_line rnd pl nh s l)) = rect_height (logical_rect l)"
  using assms by (simp_all add: output_line_move next_column_def Let_def)

lemma output_line_page:
  assumes "need_next_column rnd pl s l" and "column_idx s + 1 = num_columns pl"
  shows "fst (output_line rnd pl nh s l) =
           [EjectPage, StartPage (page_idx s + 1)]
             @ (if nh then [PageHeader (page_idx s + 1)] else [])
             @ [DrawLine 0 (rect_height (logical_rect l)) (pango_line l)]"
    and "column_idx (snd (output_line rnd pl nh s l)) = 0"
    and "page_idx (snd (output_line rnd pl nh s l)) = page_idx s + 1"
    and "column_y_pos (snd (output_line rnd pl nh s l)) = rect_height (logical_rect l)"
  using assms by (simp_all add: output_line_move next_column_def Let_def)

lemma output_line_same:
  assumes "\<not> need_next_column rnd pl s l"
  shows "fst (output_line rnd pl nh s l) =
           [DrawLine (column_idx s) (column_y_pos s + rect_height (logical_rect l)) (pango_line l)]"
    and "column_idx (snd (output_line rnd pl nh s l)) = column_idx s"
    and "page_idx (snd (output_line rnd pl nh s l)) = page_idx s"
    and "column_y_pos (snd (output_line rnd pl nh s l)) = column_y_pos s + rect_height (logical_rect l)"
  using assms by (simp_all add: output_line_stay)

lemma output_line_cases [case_names same column page]:
  obtains "\<not> need_next_column rnd pl s l"
  | "need_next_column rnd pl s l" and "column_idx s + 1 \<noteq> num_columns pl"
  | "need_next_column rnd pl s l" and "column_idx s + 1 = num_columns pl"
  by blast

lemma advance_rule_output_lines:
  "advance_rule (pango_column_height rnd pl) (column_y_pos s)
     (case prev_line_link s of None \<Rightarrow> False | Some q \<Rightarrow> formfeed q \<noteq> 0) False ls
     (fst (output_lines rnd pl nh s ls))"
proof (induction ls arbitrary: s)
  case Nil
  show ?case by simp
next
  case (Cons l ls)
  let ?s' = "snd (output_line rnd pl nh s l)"
  have prev: "prev_line_link ?s' = Some l"
    by (rule prev_after_output_line)
  note IH = Cons.IH [of ?s', unfolded prev option.case]
  show ?case
  proof (cases rule: output_line_cases [of rnd pl s l])
    case same
    then show ?thesis
      using IH by (simp add: output_lines_Cons output_line_same need_next_column_def)
  next
    case column
    then show ?thesis
      using IH by (simp add: output_lines_Cons output_line_column need_next_column_def)
  next
    case page
    then show ?thesis
      using IH
      by (cases nh) (simp_all add: output_lines_Cons output_line_page need_next_column_def)
  qed
qed

section \<open>The advance to the next column\<close>

text \<open>
  C1, as amended. Before it places a line, the loop of \<^verbatim>\<open>output_pages\<close> leaves the current
  column if and only if the cursor plus the logical height of the line is at least the
  capacity, or the line placed before carried a form feed. The capacity is an integer in
  Pango units: the product of the column height, \<^verbatim>\<open>pt_to_pixel\<close> and \<^verbatim>\<open>PANGO_SCALE\<close> as the
  machine computes it in doubles, whatever its rounding, converted to \<^verbatim>\<open>int\<close>. When the
  condition holds, for one reason or for both, the calls of the iteration are exactly one
  advance, to the next column of the page (\<^verbatim>\<open>eject_column\<close>) or from the last column to a
  new page (\<^verbatim>\<open>eject_page\<close>, \<^verbatim>\<open>start_page\<close> and the header if there is one), and then the
  drawing of the line at the top of the new column. When it does not hold, the line is
  drawn in the current column and nothing else is called. A whole run follows this rule
  from its first line to its last.
\<close>

theorem flow_advance_condition:
  "(column_y_pos s + rect_height (logical_rect l)
        \<ge> double_to_int
              (rnd (rnd (real_of_int (column_height pl) * pt_to_pixel pl) * real_of_int PANGO_SCALE))
      \<or> (\<exists>q. prev_line_link s = Some q \<and> formfeed q \<noteq> 0)
    \<longrightarrow> fst (output_line rnd pl nh s l) =
          (if column_idx s + 1 = num_columns pl
           then [EjectPage, StartPage (page_idx s + 1)]
                  @ (if nh then [PageHeader (page_idx s + 1)] else [])
                  @ [DrawLine 0 (rect_height (logical_rect l)) (pango_line l)]
           else [EjectColumn (column_idx s + 1),
                 DrawLine (column_idx s + 1) (rect_height (logical_rect l)) (pango_line l)])
        \<and> length (filter is_advance (fst (output_line rnd pl nh s l))) = 1
        \<and> (column_idx (snd (output_line rnd pl nh s l)), page_idx (snd (output_line rnd pl nh s l)))
            = (if column_idx s + 1 = num_columns pl then (0, page_idx s + 1)
               else (column_idx s + 1, page_idx s)))
   \<and> (\<not> (column_y_pos s + rect_height (logical_rect l)
            \<ge> double_to_int
              (rnd (rnd (real_of_int (column_height pl) * pt_to_pixel pl) * real_of_int PANGO_SCALE))
          \<or> (\<exists>q. prev_line_link s = Some q \<and> formfeed q \<noteq> 0))
    \<longrightarrow> fst (output_line rnd pl nh s l) =
          [DrawLine (column_idx s) (column_y_pos s + rect_height (logical_rect l)) (pango_line l)]
        \<and> column_idx (snd (output_line rnd pl nh s l)) = column_idx s
        \<and> page_idx (snd (output_line rnd pl nh s l)) = page_idx s)
   \<and> advance_rule
         (double_to_int
              (rnd (rnd (real_of_int (column_height pl) * pt_to_pixel pl) * real_of_int PANGO_SCALE)))
         0 False False ls (fst (output_pages rnd ls pl nh))"
proof -
  have cond: "need_next_column rnd pl s l \<longleftrightarrow>
      column_y_pos s + rect_height (logical_rect l)
        \<ge> double_to_int
              (rnd (rnd (real_of_int (column_height pl) * pt_to_pixel pl) * real_of_int PANGO_SCALE))
      \<or> (\<exists>q. prev_line_link s = Some q \<and> formfeed q \<noteq> 0)"
    by (simp only: need_next_column_iff pango_column_height_def)
  have move: "need_next_column rnd pl s l \<Longrightarrow>
      fst (output_line rnd pl nh s l) =
          (if column_idx s + 1 = num_columns pl
           then [EjectPage, StartPage (page_idx s + 1)]
                  @ (if nh then [PageHeader (page_idx s + 1)] else [])
                  @ [DrawLine 0 (rect_height (logical_rect l)) (pango_line l)]
           else [EjectColumn (column_idx s + 1),
                 DrawLine (column_idx s + 1) (rect_height (logical_rect l)) (pango_line l)])
        \<and> length (filter is_advance (fst (output_line rnd pl nh s l))) = 1
        \<and> (column_idx (snd (output_line rnd pl nh s l)), page_idx (snd (output_line rnd pl nh s l)))
            = (if column_idx s + 1 = num_columns pl then (0, page_idx s + 1)
               else (column_idx s + 1, page_idx s))"
    by (cases "column_idx s + 1 = num_columns pl"; cases nh)
       (simp_all add: output_line_page output_line_column)
  have stay: "\<not> need_next_column rnd pl s l \<Longrightarrow>
      fst (output_line rnd pl nh s l) =
          [DrawLine (column_idx s) (column_y_pos s + rect_height (logical_rect l)) (pango_line l)]
        \<and> column_idx (snd (output_line rnd pl nh s l)) = column_idx s
        \<and> page_idx (snd (output_line rnd pl nh s l)) = page_idx s"
    by (simp add: output_line_same)
  have run: "advance_rule
         (double_to_int
              (rnd (rnd (real_of_int (column_height pl) * pt_to_pixel pl) * real_of_int PANGO_SCALE)))
         0 False False ls (fst (output_pages rnd ls pl nh))"
    using advance_rule_output_lines [of rnd pl flow_start ls nh]
    by (cases nh) (simp_all add: output_pages_eq flow_start_def pango_column_height_def)
  show ?thesis
    using move stay run unfolding cond by blast
qed

theorem flow_advance_condition_witness:
  "column_y_pos (flow_start\<lparr> column_y_pos := 90000,
          prev_line_link := Some (sample_line ''a'' 20480 1) \<rparr>)
       + rect_height (logical_rect (sample_line ''b'' 20480 0))
     \<ge> pango_column_height sample_rounding (sample_layout 2 PANGO_DIRECTION_LTR)
   \<and> fst (output_line sample_rounding (sample_layout 2 PANGO_DIRECTION_LTR) False
        (flow_start\<lparr> column_y_pos := 90000, prev_line_link := Some (sample_line ''a'' 20480 1) \<rparr>)
        (sample_line ''b'' 20480 0))
     = [EjectColumn 1, DrawLine 1 20480 (sample_pango_line ''b'' 51200 20480)]
   \<and> fst (output_line sample_rounding (sample_layout 2 PANGO_DIRECTION_LTR) False
        (flow_start\<lparr> column_y_pos := 20480 \<rparr>) (sample_line ''b'' 20480 0))
     = [DrawLine 0 40960 (sample_pango_line ''b'' 51200 20480)]
   \<and> advance_rule 102400 0 False False
        [sample_line ''a'' 20480 1, sample_line ''b'' 20480 0]
        (fst (output_pages sample_rounding [sample_line ''a'' 20480 1, sample_line ''b'' 20480 0]
                (sample_layout 2 PANGO_DIRECTION_LTR) False))"
  using flow_advance_condition [where rnd = sample_rounding
      and pl = "sample_layout 2 PANGO_DIRECTION_LTR" and nh = False
      and s = "flow_start\<lparr> column_y_pos := 90000,
                 prev_line_link := Some (sample_line ''a'' 20480 1) \<rparr>"
      and l = "sample_line ''b'' 20480 0"
      and ls = "[sample_line ''a'' 20480 1, sample_line ''b'' 20480 0]"]
    flow_advance_condition [where rnd = sample_rounding
      and pl = "sample_layout 2 PANGO_DIRECTION_LTR" and nh = False
      and s = "flow_start\<lparr> column_y_pos := 20480 \<rparr>"
      and l = "sample_line ''b'' 20480 0" and ls = "[]"]
  by (simp add: pango_column_height_def sample_defs)

text \<open>
  C1 as it is stated takes the capacity to be the product itself, with no rounding. With a
  column height of 3 and \<^verbatim>\<open>pt_to_pixel\<close> = 1/2048 the products are 3/2048 and then 1.5 in
  Pango units, both of them doubles, and \<^verbatim>\<open>pango_column_height\<close> is 1: a first line of
  height 1 does not reach 1.5, and yet it is moved to page 2. Read without \<^verbatim>\<open>PANGO_SCALE\<close>, the product of the sample layout is 100:
  a first line of height 200 exceeds it, and yet it stays on page 1.
\<close>

theorem advance_capacity_counterexample:
  "fst (output_pages sample_rounding [sample_line ''a'' 1 0]
         ((sample_layout 1 PANGO_DIRECTION_LTR)\<lparr> column_height := 3, pt_to_pixel := 1 / 2048 \<rparr>) False)
     = [StartPage 1, EjectPage, StartPage 2, DrawLine 0 1 (sample_pango_line ''a'' 51200 1), EjectPage]
   \<and> \<not> real_of_int (0 + 1)
         \<ge> column_capacity_exact
             ((sample_layout 1 PANGO_DIRECTION_LTR)\<lparr> column_height := 3, pt_to_pixel := 1 / 2048 \<rparr>)
   \<and> fst (output_pages sample_rounding [sample_line ''a'' 200 0] (sample_layout 1 PANGO_DIRECTION_LTR) False)
     = [StartPage 1, DrawLine 0 200 (sample_pango_line ''a'' 51200 200), EjectPage]
   \<and> real_of_int (0 + 200) \<ge> column_capacity_unscaled (sample_layout 1 PANGO_DIRECTION_LTR)"
  by (simp add: output_pages_eq output_lines_Cons output_line_def next_column_def
        need_next_column_def pango_column_height_def column_capacity_exact_def
        column_capacity_unscaled_def sample_defs)

section \<open>Form feeds\<close>




subsection \<open>Pages\<close>

lemma page_markers_output_lines:
  "StartPage (page_idx s) # filter is_page_marker (fst (output_lines rnd pl nh s ls)) =
     concat (map (\<lambda>k. [StartPage k, EjectPage]) [page_idx s .. snd (output_lines rnd pl nh s ls)])
   \<and> page_idx s \<le> snd (output_lines rnd pl nh s ls)"
proof (induction ls arbitrary: s)
  case Nil
  then show ?case by simp
next
  case (Cons l ls)
  let ?s' = "snd (output_line rnd pl nh s l)"
  let ?n = "snd (output_lines rnd pl nh ?s' ls)"
  note IH = Cons.IH [of ?s']
  show ?case
  proof (cases rule: output_line_cases [of rnd pl s l])
    case same
    then show ?thesis
      using IH by (simp add: output_lines_Cons output_line_same)
  next
    case column
    then show ?thesis
      using IH by (simp add: output_lines_Cons output_line_column)
  next
    case page
    have le: "page_idx s + 1 \<le> ?n"
      using IH page by (simp add: output_line_page)
    then have up: "[page_idx s .. ?n] = page_idx s # [page_idx s + 1 .. ?n]"
      by (simp add: upto_rec1)
    have "StartPage (page_idx s + 1) # filter is_page_marker (fst (output_lines rnd pl nh ?s' ls)) =
        concat (map (\<lambda>k. [StartPage k, EjectPage]) [page_idx s + 1 .. ?n])"
      using IH page by (simp add: output_line_page)
    then show ?thesis
      using page le by (simp add: output_lines_Cons output_line_page up)
  qed
qed

lemma last_output_lines:
  "last (fst (output_lines rnd pl nh s ls)) = EjectPage \<and> fst (output_lines rnd pl nh s ls) \<noteq> []"
  by (induction ls arbitrary: s) (simp_all add: output_lines_Cons)

lemma column_advances_output_lines:
  "0 \<le> column_idx s \<Longrightarrow> column_idx s < num_columns pl \<Longrightarrow>
     \<forall>c \<in> set (column_advances (nat (column_idx s)) (fst (output_lines rnd pl nh s ls))).
       int c \<le> num_columns pl - 1"
proof (induction ls arbitrary: s)
  case Nil
  then show ?case by simp
next
  case (Cons l ls)
  let ?s' = "snd (output_line rnd pl nh s l)"
  show ?case
  proof (cases rule: output_line_cases [of rnd pl s l])
    case same
    then show ?thesis
      using Cons.IH [of ?s'] Cons.prems
      by (simp add: output_lines_Cons output_line_same)
  next
    case column
    have "nat (column_idx s + 1) = Suc (nat (column_idx s))"
      using Cons.prems by simp
    then show ?thesis
      using Cons.IH [of ?s'] Cons.prems column
      by (simp add: output_lines_Cons output_line_column)
  next
    case page
    then show ?thesis
      using Cons.IH [of ?s'] Cons.prems
      by (cases nh) (simp_all add: output_lines_Cons output_line_page)
  qed
qed

lemma drawn_lines_append:
  "drawn_lines (xs @ ys) = drawn_lines xs @ drawn_lines ys"
  by (induction xs rule: drawn_lines.induct) simp_all

lemma drawn_lines_output_line:
  "drawn_lines (fst (output_line rnd pl nh s l)) = [pango_line l]"
  by (cases rule: output_line_cases [of rnd pl s l])
     (simp_all add: output_line_same output_line_column output_line_page)

lemma drawn_lines_output_lines:
  "drawn_lines (fst (output_lines rnd pl nh s ls)) = map pango_line ls"
  by (induction ls arbitrary: s)
     (simp_all add: output_lines_Cons drawn_lines_append drawn_lines_output_line)

lemma lines_fit_tail:
  "lines_fit cap (e # es) \<Longrightarrow> lines_fit cap es"
  by (cases "(cap, e # es)" rule: lines_fit.cases) auto

lemma lines_fit_output_lines:
  "lines_fit (pango_column_height rnd pl) (DrawLine c p x # fst (output_lines rnd pl nh s ls))"
proof (induction ls arbitrary: s c p x)
  case Nil
  then show ?case by simp
next
  case (Cons l ls)
  let ?s' = "snd (output_line rnd pl nh s l)"
  show ?case
  proof (cases rule: output_line_cases [of rnd pl s l])
    case same
    then have "column_y_pos s + rect_height (logical_rect l) < pango_column_height rnd pl"
      by (simp add: need_next_column_iff)
    then show ?thesis
      using same Cons.IH [of _ _ _ ?s']
      by (simp add: output_lines_Cons output_line_same)
  next
    case column
    then show ?thesis
      using Cons.IH [of _ _ _ ?s']
      by (simp add: output_lines_Cons output_line_column)
  next
    case page
    then show ?thesis
      using Cons.IH [of _ _ _ ?s']
      by (cases nh) (simp_all add: output_lines_Cons output_line_page)
  qed
qed

lemma below_double_to_int:
  "n < double_to_int d \<Longrightarrow> real_of_int n \<le> d"
  by (auto simp: double_to_int_def less_floor_iff less_ceiling_iff split: if_splits)

lemma below_capacity_double:
  "\<not> need_next_column rnd pl s l \<Longrightarrow>
     real_of_int (column_y_pos s + rect_height (logical_rect l))
       \<le> rnd (rnd (real_of_int (column_height pl) * pt_to_pixel pl) * real_of_int PANGO_SCALE)"
  by (rule below_double_to_int) (simp add: need_next_column_iff pango_column_height_def)

section \<open>No line is lost or split\<close>

text \<open>
  C9. \<^verbatim>\<open>output_pages\<close> is a total function of the lines: it has no failing branch. Every
  line is drawn, once and in the order of the input, whatever its height. A line drawn
  right after another line of the same column ends at or above the capacity
  \<^verbatim>\<open>pango_column_height\<close>: when the loop does not leave the column, the cursor plus the
  height of the line is below that capacity, and not above the product of the column
  height, \<^verbatim>\<open>pt_to_pixel\<close> and \<^verbatim>\<open>PANGO_SCALE\<close> as the machine computes it. Otherwise exactly one call leaves the column
  first and the line is drawn at the top of the new one, at the cursor 0, even when it
  is taller than the column.
\<close>

theorem no_line_lost_or_split:
  "drawn_lines (fst (output_pages rnd ls pl nh)) = map pango_line ls
   \<and> lines_fit (pango_column_height rnd pl) (fst (output_pages rnd ls pl nh))
   \<and> (\<not> need_next_column rnd pl s l \<longrightarrow>
        column_y_pos s + rect_height (logical_rect l) < pango_column_height rnd pl
        \<and> real_of_int (column_y_pos s + rect_height (logical_rect l))
            \<le> rnd (rnd (real_of_int (column_height pl) * pt_to_pixel pl) * real_of_int PANGO_SCALE))
   \<and> (need_next_column rnd pl s l \<longrightarrow>
        (\<exists>c. fst (output_line rnd pl nh s l) =
           fst (next_column pl nh s) @ [DrawLine c (0 + rect_height (logical_rect l)) (pango_line l)])
        \<and> length (filter is_advance (fst (next_column pl nh s))) = 1)"
proof -
  have all: "drawn_lines (fst (output_pages rnd ls pl nh)) = map pango_line ls"
    by (simp add: output_pages_eq drawn_lines_append drawn_lines_output_lines)
  have "lines_fit (pango_column_height rnd pl) (fst (output_lines rnd pl nh flow_start ls))"
    by (rule lines_fit_tail [OF lines_fit_output_lines])
  then have fit: "lines_fit (pango_column_height rnd pl) (fst (output_pages rnd ls pl nh))"
    by (cases nh) (simp_all add: output_pages_eq)
  have stay: "\<not> need_next_column rnd pl s l \<Longrightarrow>
      column_y_pos s + rect_height (logical_rect l) < pango_column_height rnd pl"
    by (simp add: need_next_column_iff)
  have move: "need_next_column rnd pl s l \<Longrightarrow>
      \<exists>c. fst (output_line rnd pl nh s l) =
           fst (next_column pl nh s) @ [DrawLine c (0 + rect_height (logical_rect l)) (pango_line l)]"
    by (simp add: output_line_move)
  show ?thesis
    using all fit stay move advances_next_column [of pl nh s] below_capacity_double [of rnd pl s l]
    by blast
qed

theorem no_line_lost_or_split_witness:
  "fst (output_pages sample_rounding [sample_line ''a'' 20480 0, sample_line ''tall'' 204800 0, sample_line ''c'' 20480 0]
          (sample_layout 2 PANGO_DIRECTION_LTR) False)
     = [StartPage 1, DrawLine 0 20480 (sample_pango_line ''a'' 51200 20480),
        EjectColumn 1, DrawLine 1 204800 (sample_pango_line ''tall'' 51200 204800),
        EjectPage, StartPage 2, DrawLine 0 20480 (sample_pango_line ''c'' 51200 20480), EjectPage]
   \<and> drawn_lines (fst (output_pages sample_rounding
          [sample_line ''a'' 20480 0, sample_line ''tall'' 204800 0, sample_line ''c'' 20480 0]
          (sample_layout 2 PANGO_DIRECTION_LTR) False))
     = [sample_pango_line ''a'' 51200 20480, sample_pango_line ''tall'' 51200 204800,
        sample_pango_line ''c'' 51200 20480]
   \<and> lines_fit 102400 (fst (output_pages sample_rounding
          [sample_line ''a'' 20480 0, sample_line ''tall'' 204800 0, sample_line ''c'' 20480 0]
          (sample_layout 2 PANGO_DIRECTION_LTR) False))
   \<and> need_next_column sample_rounding (sample_layout 2 PANGO_DIRECTION_LTR)
        (flow_start\<lparr> column_y_pos := 20480 \<rparr>) (sample_line ''tall'' 204800 0)
   \<and> \<not> need_next_column sample_rounding (sample_layout 2 PANGO_DIRECTION_LTR) flow_start (sample_line ''a'' 20480 0)"
  using no_line_lost_or_split [of sample_rounding
      "[sample_line ''a'' 20480 0, sample_line ''tall'' 204800 0, sample_line ''c'' 20480 0]"
      "sample_layout 2 PANGO_DIRECTION_LTR" False flow_start "sample_line ''a'' 20480 0"]
  by (simp add: output_pages_eq output_lines_Cons output_line_def next_column_def
        need_next_column_def pango_column_height_def sample_defs)

subsection \<open>The routines\<close>

lemma perform_draw_line:
  "ps_pages_string (perform rnd env w (DrawLine c p x)) =
     ps_pages_string w
       @ [PsLayoutLine (draw_line_x_pos (page_layout w) c x) (draw_line_y_pos (page_layout w) p) x]"
  by (simp add: draw_line_to_page_def Let_def)

lemma last_output_line_pos:
  "last (fst (output_line rnd pl nh s l)) =
     DrawLine (column_idx (snd (output_line rnd pl nh s l)))
       (column_y_pos (snd (output_line rnd pl nh s l))) (pango_line l)"
  by (cases "need_next_column rnd pl s l") (simp_all add: output_line_move output_line_stay)

lemma cursor_after_output_line:
  "column_y_pos (snd (output_line rnd pl nh s l)) =
     (if need_next_column rnd pl s l then 0 else column_y_pos s) + rect_height (logical_rect l)"
  by (cases "need_next_column rnd pl s l") (simp_all add: output_line_move output_line_stay)

lemma cumulative_offsets_output_lines:
  "cumulative_offsets (column_y_pos s) (map (\<lambda>l. rect_height (logical_rect l)) ls)
     (fst (output_lines rnd pl nh s ls))"
proof (induction ls arbitrary: s)
  case Nil
  show ?case by simp
next
  case (Cons l ls)
  let ?s' = "snd (output_line rnd pl nh s l)"
  note IH = Cons.IH [of ?s']
  show ?case
  proof (cases rule: output_line_cases [of rnd pl s l])
    case same
    then show ?thesis
      using IH by (simp add: output_lines_Cons output_line_same)
  next
    case column
    then show ?thesis
      using IH by (simp add: output_lines_Cons output_line_column)
  next
    case page
    then show ?thesis
      using IH by (cases nh) (simp_all add: output_lines_Cons output_line_page)
  qed
qed

lemma perform_draw_positions:
  "draw_line_x_pos (page_layout (perform rnd env w e)) = draw_line_x_pos (page_layout w)
   \<and> draw_line_y_pos (page_layout (perform rnd env w e)) = draw_line_y_pos (page_layout w)"
  by (cases e)
     (auto simp: fun_eq_iff start_page_def eject_page_def eject_column_def draw_line_to_page_def
        draw_page_header_line_to_page_def draw_line_x_pos_def draw_line_y_pos_def Let_def
        case_prod_beta)

lemma perform_keeps_items:
  "set (ps_pages_string w) \<subseteq> set (ps_pages_string (perform rnd env w e))"
  by (cases e)
     (auto simp: start_page_def eject_page_def eject_column_def draw_line_to_page_def
        draw_page_header_line_to_page_def Let_def case_prod_beta)

lemma foldl_perform_keeps_items:
  "set (ps_pages_string w) \<subseteq> set (ps_pages_string (foldl (perform rnd env) w evs))"
proof (induction evs arbitrary: w)
  case Nil
  show ?case by simp
next
  case (Cons e evs)
  show ?case
    using perform_keeps_items [of w rnd env e] Cons.IH [of "perform rnd env w e"]
    by auto
qed

lemma foldl_perform_draws:
  assumes "draw_line_x_pos (page_layout w) = draw_line_x_pos pl"
    and "draw_line_y_pos (page_layout w) = draw_line_y_pos pl"
    and "DrawLine c p x \<in> set evs"
  shows "PsLayoutLine (draw_line_x_pos pl c x) (draw_line_y_pos pl p) x
           \<in> set (ps_pages_string (foldl (perform rnd env) w evs))"
  using assms
proof (induction evs arbitrary: w)
  case Nil
  then show ?case by simp
next
  case (Cons e evs)
  let ?w' = "perform rnd env w e"
  have pos: "draw_line_x_pos (page_layout ?w') = draw_line_x_pos pl"
    "draw_line_y_pos (page_layout ?w') = draw_line_y_pos pl"
    using perform_draw_positions [of rnd env w e] Cons.prems(1,2) by simp_all
  show ?case
  proof (cases "e = DrawLine c p x")
    case True
    have "PsLayoutLine (draw_line_x_pos pl c x) (draw_line_y_pos pl p) x
        \<in> set (ps_pages_string ?w')"
      using Cons.prems(1,2) by (simp add: True draw_line_to_page_def Let_def)
    then show ?thesis
      using foldl_perform_keeps_items [of ?w' rnd env evs] by auto
  next
    case False
    then have "DrawLine c p x \<in> set evs"
      using Cons.prems(3) by simp
    then show ?thesis
      using Cons.IH [OF pos] by simp
  qed
qed

section \<open>The position of a line\<close>

text \<open>
  C7. The last call of an iteration is \<^verbatim>\<open>draw_line_to_page\<close> for the line of the iteration,
  and the position passed is the cursor after the line: the cursor before it (0 after an
  advance) plus the logical height of the line. \<^verbatim>\<open>draw_line_to_page\<close> writes the line at
  \<open>y_pos\<close> = page height - top margin - header separation - height in points, where the
  height in points is the position in Pango units divided by \<^verbatim>\<open>PANGO_SCALE\<close>, as integers,
  and multiplied by \<^verbatim>\<open>pixel_to_pt\<close>. In a run of \<^verbatim>\<open>output_pages\<close> the positions are
  cumulative: each is the position of the line drawn before it in the same column, or 0
  for the first line of a column, plus the height of the line. And every line that the
  run draws at a position is written on the pages at the \<open>y_pos\<close> of that position.
\<close>

theorem line_vertical_position:
  "last (fst (output_line rnd pl nh s l)) =
     DrawLine (column_idx (snd (output_line rnd pl nh s l)))
       (column_y_pos (snd (output_line rnd pl nh s l))) (pango_line l)
   \<and> column_y_pos (snd (output_line rnd pl nh s l)) =
       (if need_next_column rnd pl s l then 0 else column_y_pos s) + rect_height (logical_rect l)
   \<and> ps_pages_string (perform rnd env w (DrawLine c p x)) =
       ps_pages_string w
         @ [PsLayoutLine (draw_line_x_pos (page_layout w) c x) (draw_line_y_pos (page_layout w) p) x]
   \<and> draw_line_y_pos lay p =
       real_of_int (page_height lay) - real_of_int (top_margin lay) - real_of_int (header_sep lay)
         - real_of_int (p sdiv PANGO_SCALE) * pixel_to_pt lay
   \<and> cumulative_offsets 0 (map (\<lambda>k. rect_height (logical_rect k)) ls)
         (fst (output_pages rnd ls pl nh))
   \<and> (\<forall>c' p' x'. DrawLine c' p' x' \<in> set (fst (output_pages rnd ls pl nh)) \<longrightarrow>
         PsLayoutLine (draw_line_x_pos pl c' x') (draw_line_y_pos pl p') x'
           \<in> set (write_pages rnd env ls pl nh))"
proof -
  have run: "cumulative_offsets 0 (map (\<lambda>k. rect_height (logical_rect k)) ls)
      (fst (output_pages rnd ls pl nh))"
    using cumulative_offsets_output_lines [of flow_start ls rnd pl nh]
    by (cases nh) (simp_all add: output_pages_eq flow_start_def)
  have written: "PsLayoutLine (draw_line_x_pos pl c' x') (draw_line_y_pos pl p') x'
      \<in> set (write_pages rnd env ls pl nh)"
    if "DrawLine c' p' x' \<in> set (fst (output_pages rnd ls pl nh))" for c' p' x'
    unfolding write_pages_def
    by (rule foldl_perform_draws [OF _ _ that]) simp_all
  have y: "draw_line_y_pos lay p =
       real_of_int (page_height lay) - real_of_int (top_margin lay) - real_of_int (header_sep lay)
         - real_of_int (p sdiv PANGO_SCALE) * pixel_to_pt lay"
    by (simp add: draw_line_y_pos_def)
  show ?thesis
    using last_output_line_pos [of rnd pl nh s l] cursor_after_output_line [of rnd pl nh s l]
      perform_draw_line [of rnd env w c p x] y run written
    by blast
qed

theorem line_vertical_position_witness:
  "last (fst (output_line sample_rounding (sample_layout 2 PANGO_DIRECTION_LTR) False
            (flow_start\<lparr> column_y_pos := 20480 \<rparr>) (sample_line ''b'' 20480 0)))
     = DrawLine 0 40960 (sample_pango_line ''b'' 51200 20480)
   \<and> draw_line_y_pos (sample_layout 2 PANGO_DIRECTION_LTR) 41000 = 96
   \<and> fst (output_pages sample_rounding
        [sample_line ''a'' 20480 0, sample_line ''b'' 20480 1, sample_line ''c'' 30720 0]
        (sample_layout 2 PANGO_DIRECTION_LTR) False)
     = [StartPage 1, DrawLine 0 20480 (sample_pango_line ''a'' 51200 20480),
        DrawLine 0 40960 (sample_pango_line ''b'' 51200 20480), EjectColumn 1,
        DrawLine 1 30720 (sample_pango_line ''c'' 51200 30720), EjectPage]
   \<and> cumulative_offsets 0 [20480, 20480, 30720]
        (fst (output_pages sample_rounding
           [sample_line ''a'' 20480 0, sample_line ''b'' 20480 1, sample_line ''c'' 30720 0]
           (sample_layout 2 PANGO_DIRECTION_LTR) False))
   \<and> PsLayoutLine 36 96 (sample_pango_line ''b'' 51200 20480)
        \<in> set (write_pages sample_rounding (sample_environment ''Fri Oct 30 10:00:00 2026'')
             [sample_line ''a'' 20480 0, sample_line ''b'' 20480 1, sample_line ''c'' 30720 0]
             (sample_layout 2 PANGO_DIRECTION_LTR) False)"
proof -
  have run: "fst (output_pages sample_rounding
        [sample_line ''a'' 20480 0, sample_line ''b'' 20480 1, sample_line ''c'' 30720 0]
        (sample_layout 2 PANGO_DIRECTION_LTR) False)
     = [StartPage 1, DrawLine 0 20480 (sample_pango_line ''a'' 51200 20480),
        DrawLine 0 40960 (sample_pango_line ''b'' 51200 20480), EjectColumn 1,
        DrawLine 1 30720 (sample_pango_line ''c'' 51200 30720), EjectPage]"
    by (simp add: output_pages_eq output_lines_Cons output_line_def next_column_def
        need_next_column_def pango_column_height_def sample_defs)
  have x: "draw_line_x_pos (sample_layout 2 PANGO_DIRECTION_LTR) 0
      (sample_pango_line ''b'' 51200 20480) = 36"
    by (simp add: draw_line_x_pos_def sample_defs)
  have y: "draw_line_y_pos (sample_layout 2 PANGO_DIRECTION_LTR) 40960 = 96"
    by (simp add: draw_line_y_pos_def signed_divide_int_def sample_defs)
  note inst = line_vertical_position [where rnd = sample_rounding
        and pl = "sample_layout 2 PANGO_DIRECTION_LTR"
        and nh = False and s = "flow_start\<lparr> column_y_pos := 20480 \<rparr>"
        and l = "sample_line ''b'' 20480 0"
        and lay = "sample_layout 2 PANGO_DIRECTION_LTR" and p = 41000
        and env = "sample_environment ''Fri Oct 30 10:00:00 2026''"
        and ls = "[sample_line ''a'' 20480 0, sample_line ''b'' 20480 1,
                   sample_line ''c'' 30720 0]"]
  have step: "last (fst (output_line sample_rounding (sample_layout 2 PANGO_DIRECTION_LTR) False
            (flow_start\<lparr> column_y_pos := 20480 \<rparr>) (sample_line ''b'' 20480 0)))
     = DrawLine 0 40960 (sample_pango_line ''b'' 51200 20480)
     \<and> draw_line_y_pos (sample_layout 2 PANGO_DIRECTION_LTR) 41000 = 96"
    using inst
    by (simp add: output_line_def need_next_column_def pango_column_height_def
        signed_divide_int_def sample_defs)
  have offsets: "cumulative_offsets 0 [20480, 20480, 30720]
        (fst (output_pages sample_rounding
           [sample_line ''a'' 20480 0, sample_line ''b'' 20480 1, sample_line ''c'' 30720 0]
           (sample_layout 2 PANGO_DIRECTION_LTR) False))"
    using inst by (simp add: sample_line_def sample_pango_line_def)
  have "DrawLine 0 40960 (sample_pango_line ''b'' 51200 20480)
      \<in> set (fst (output_pages sample_rounding
           [sample_line ''a'' 20480 0, sample_line ''b'' 20480 1, sample_line ''c'' 30720 0]
           (sample_layout 2 PANGO_DIRECTION_LTR) False))"
    by (simp add: run)
  then have item: "PsLayoutLine
        (draw_line_x_pos (sample_layout 2 PANGO_DIRECTION_LTR) 0 (sample_pango_line ''b'' 51200 20480))
        (draw_line_y_pos (sample_layout 2 PANGO_DIRECTION_LTR) 40960)
        (sample_pango_line ''b'' 51200 20480)
        \<in> set (write_pages sample_rounding (sample_environment ''Fri Oct 30 10:00:00 2026'')
             [sample_line ''a'' 20480 0, sample_line ''b'' 20480 1, sample_line ''c'' 30720 0]
             (sample_layout 2 PANGO_DIRECTION_LTR) False)"
    using inst by blast
  show ?thesis
    using step run offsets item unfolding x y by blast
qed

text \<open>
  C6. In right-to-left direction a line of column \<open>c\<close> is written at \<open>x_pos\<close> = left margin
  + (number of columns - 1 - \<open>c\<close>) * (column width + gutter) + (column width - width of
  the line in points), the width in points being the logical width divided by
  \<^verbatim>\<open>pt_to_pixel * PANGO_SCALE\<close>. In every other direction \<open>x_pos\<close> = left margin + \<open>c\<close> *
  (column width + gutter). So the column 0 of a right-to-left layout stands where the
  last column of the left-to-right layout does, shifted by the alignment of the line,
  and no column of that layout is further right.
\<close>

theorem line_horizontal_position:
  "(pango_dir lay = PANGO_DIRECTION_RTL \<longrightarrow>
      draw_line_x_pos lay c x =
        real_of_int (left_margin lay
                       + (num_columns lay - 1 - c) * (column_width lay + gutter_width lay))
          + (real_of_int (column_width lay)
               - real_of_int (rect_width (extents_logical x))
                   / (pt_to_pixel lay * real_of_int PANGO_SCALE)))
   \<and> (pango_dir lay \<noteq> PANGO_DIRECTION_RTL \<longrightarrow>
      draw_line_x_pos lay c x =
        real_of_int (left_margin lay + c * (column_width lay + gutter_width lay)))
   \<and> (pango_dir lay = PANGO_DIRECTION_RTL \<longrightarrow>
      draw_line_x_pos lay 0 x =
        draw_line_x_pos (lay\<lparr> pango_dir := PANGO_DIRECTION_LTR \<rparr>) (num_columns lay - 1) x
          + (real_of_int (column_width lay)
               - real_of_int (rect_width (extents_logical x))
                   / (pt_to_pixel lay * real_of_int PANGO_SCALE)))
   \<and> (pango_dir lay = PANGO_DIRECTION_RTL \<and> 0 \<le> c \<and> 0 \<le> column_width lay + gutter_width lay \<longrightarrow>
      draw_line_x_pos lay c x \<le> draw_line_x_pos lay 0 x)
   \<and> ps_pages_string (draw_line_to_page c p x w) =
       ps_pages_string w
         @ [PsLayoutLine (draw_line_x_pos (page_layout w) c x) (draw_line_y_pos (page_layout w) p) x]"
proof -
  have rtl: "pango_dir lay = PANGO_DIRECTION_RTL \<Longrightarrow>
      draw_line_x_pos lay c x =
        real_of_int (left_margin lay
                       + (num_columns lay - 1 - c) * (column_width lay + gutter_width lay))
          + (real_of_int (column_width lay)
               - real_of_int (rect_width (extents_logical x))
                   / (pt_to_pixel lay * real_of_int PANGO_SCALE))" for c
    by (simp add: draw_line_x_pos_def)
  have ltr: "pango_dir lay \<noteq> PANGO_DIRECTION_RTL \<Longrightarrow>
      draw_line_x_pos lay c x =
        real_of_int (left_margin lay + c * (column_width lay + gutter_width lay))" for lay c
    by (simp add: draw_line_x_pos_def)
  have mirror: "pango_dir lay = PANGO_DIRECTION_RTL \<Longrightarrow>
      draw_line_x_pos lay 0 x =
        draw_line_x_pos (lay\<lparr> pango_dir := PANGO_DIRECTION_LTR \<rparr>) (num_columns lay - 1) x
          + (real_of_int (column_width lay)
               - real_of_int (rect_width (extents_logical x))
                   / (pt_to_pixel lay * real_of_int PANGO_SCALE))"
    by (simp add: rtl ltr)
  have right: "draw_line_x_pos lay c x \<le> draw_line_x_pos lay 0 x"
    if "pango_dir lay = PANGO_DIRECTION_RTL" "0 \<le> c" "0 \<le> column_width lay + gutter_width lay"
  proof -
    have "(num_columns lay - 1 - c) * (column_width lay + gutter_width lay)
        \<le> (num_columns lay - 1) * (column_width lay + gutter_width lay)"
      using that by (intro mult_right_mono) simp_all
    then have "real_of_int ((num_columns lay - 1 - c) * (column_width lay + gutter_width lay))
        \<le> real_of_int ((num_columns lay - 1) * (column_width lay + gutter_width lay))"
      by (simp only: of_int_le_iff)
    then show ?thesis
      using that(1) by (simp add: rtl)
  qed
  show ?thesis
    using rtl [of c] ltr [of lay c] mirror right perform_draw_line [of _ _ w c p x]
    by simp
qed

theorem line_horizontal_position_witness:
  "draw_line_x_pos (sample_layout 2 PANGO_DIRECTION_RTL) 0 (sample_pango_line ''a'' 51200 20480) = 426
   \<and> draw_line_x_pos (sample_layout 2 PANGO_DIRECTION_RTL) 1 (sample_pango_line ''a'' 51200 20480) = 186
   \<and> draw_line_x_pos (sample_layout 2 PANGO_DIRECTION_LTR) 1 (sample_pango_line ''a'' 51200 20480) = 276
   \<and> pango_dir (sample_layout 2 PANGO_DIRECTION_RTL) = PANGO_DIRECTION_RTL
   \<and> pango_dir (sample_layout 2 PANGO_DIRECTION_LTR) \<noteq> PANGO_DIRECTION_RTL"
  using line_horizontal_position [of "sample_layout 2 PANGO_DIRECTION_RTL" 0
      "sample_pango_line ''a'' 51200 20480"]
    line_horizontal_position [of "sample_layout 2 PANGO_DIRECTION_RTL" 1
      "sample_pango_line ''a'' 51200 20480"]
    line_horizontal_position [of "sample_layout 2 PANGO_DIRECTION_LTR" 1
      "sample_pango_line ''a'' 51200 20480"]
  by (simp add: sample_defs)

lemma eject_column_off:
  "\<not> do_separation_line (page_layout w) \<Longrightarrow> eject_column k w = w"
  by (simp add: eject_column_def)

lemma eject_column_on:
  "do_separation_line (page_layout w) \<Longrightarrow>
     eject_column k w =
       w\<lparr> ps_pages_string := ps_pages_string w
            @ [PsColumnLine (eject_column_x_pos (page_layout w) k)
                 (real_of_int (page_height (page_layout w) - top_margin (page_layout w)
                                 - header_height (page_layout w) - header_sep (page_layout w) sdiv 2))
                 (eject_column_x_pos (page_layout w) k)
                 (real_of_int (bottom_margin (page_layout w) - footer_height (page_layout w)))] \<rparr>"
  by (simp add: eject_column_def Let_def)

section \<open>The separation line\<close>

text \<open>
  C8, as amended. When the loop leaves a column and stays on the page, it calls
  \<^verbatim>\<open>eject_column\<close> with the index of the new column, the old index plus one, whether or
  not separation lines are enabled. \<^verbatim>\<open>eject_column\<close> writes nothing when they are disabled
  and one line when they are enabled. In right-to-left direction the index \<open>k\<close> it was
  called with is replaced by the number of columns minus \<open>k\<close> before the position of the
  line is computed.
\<close>

theorem eject_column_call:
  "(need_next_column rnd pl s l \<and> column_idx s + 1 \<noteq> num_columns pl \<longrightarrow>
      fst (output_line rnd pl nh s l) =
        [EjectColumn (column_idx s + 1),
         DrawLine (column_idx s + 1) (rect_height (logical_rect l)) (pango_line l)])
   \<and> perform rnd env w (EjectColumn k) = eject_column k w
   \<and> (\<not> do_separation_line (page_layout w) \<longrightarrow> eject_column k w = w)
   \<and> (do_separation_line (page_layout w) \<longrightarrow>
        ps_pages_string (eject_column k w) =
          ps_pages_string w
            @ [PsColumnLine (eject_column_x_pos (page_layout w) k)
                 (real_of_int (page_height (page_layout w) - top_margin (page_layout w)
                                 - header_height (page_layout w) - header_sep (page_layout w) sdiv 2))
                 (eject_column_x_pos (page_layout w) k)
                 (real_of_int (bottom_margin (page_layout w) - footer_height (page_layout w)))])
   \<and> eject_column_x_pos lay k =
       real_of_int (left_margin lay + column_width lay * eject_column_idx lay k)
         + (if eject_column_idx lay k = 1 then real_of_int (gutter_width lay) / 2
            else (real_of_int (eject_column_idx lay k) + 1.5) * real_of_int (gutter_width lay))
   \<and> (pango_dir lay = PANGO_DIRECTION_RTL \<longrightarrow> eject_column_idx lay k = num_columns lay - k)
   \<and> (pango_dir lay \<noteq> PANGO_DIRECTION_RTL \<longrightarrow> eject_column_idx lay k = k)"
proof -
  have x: "eject_column_x_pos lay k =
       real_of_int (left_margin lay + column_width lay * eject_column_idx lay k)
         + (if eject_column_idx lay k = 1 then real_of_int (gutter_width lay) / 2
            else (real_of_int (eject_column_idx lay k) + 1.5) * real_of_int (gutter_width lay))"
    by (simp add: eject_column_x_pos_def Let_def)
  have idx: "(pango_dir lay = PANGO_DIRECTION_RTL \<longrightarrow> eject_column_idx lay k = num_columns lay - k)
      \<and> (pango_dir lay \<noteq> PANGO_DIRECTION_RTL \<longrightarrow> eject_column_idx lay k = k)"
    by (simp add: eject_column_idx_def)
  have on: "do_separation_line (page_layout w) \<Longrightarrow>
        ps_pages_string (eject_column k w) =
          ps_pages_string w
            @ [PsColumnLine (eject_column_x_pos (page_layout w) k)
                 (real_of_int (page_height (page_layout w) - top_margin (page_layout w)
                                 - header_height (page_layout w) - header_sep (page_layout w) sdiv 2))
                 (eject_column_x_pos (page_layout w) k)
                 (real_of_int (bottom_margin (page_layout w) - footer_height (page_layout w)))]"
    by (simp add: eject_column_on)
  have call: "perform rnd env w (EjectColumn k) = eject_column k w"
    by simp
  show ?thesis
    using output_line_column(1) [of rnd pl s l nh] eject_column_off [of w k] on call x idx
    by blast
qed

theorem eject_column_call_witness:
  "need_next_column sample_rounding (sample_layout 2 PANGO_DIRECTION_RTL)
      (flow_start\<lparr> prev_line_link := Some (sample_line ''a'' 20480 1) \<rparr>) (sample_line ''b'' 20480 0)
   \<and> fst (output_line sample_rounding (sample_layout 2 PANGO_DIRECTION_RTL) False
        (flow_start\<lparr> prev_line_link := Some (sample_line ''a'' 20480 1) \<rparr>) (sample_line ''b'' 20480 0))
     = [EjectColumn 1, DrawLine 1 20480 (sample_pango_line ''b'' 51200 20480)]
   \<and> eject_column_idx (sample_layout 2 PANGO_DIRECTION_RTL) 1 = 1
   \<and> eject_column_idx (sample_layout 3 PANGO_DIRECTION_RTL) 1 = 2
   \<and> eject_column_x_pos (sample_layout 2 PANGO_DIRECTION_RTL) 1 = 256
   \<and> ps_pages_string (eject_column 1
        \<lparr> ps_pages_string = [], page_layout = sample_layout 2 PANGO_DIRECTION_RTL, clock_reads = 0 \<rparr>)
     = [PsColumnLine 256 136 256 36]
   \<and> eject_column 1 \<lparr> ps_pages_string = [],
        page_layout = (sample_layout 2 PANGO_DIRECTION_RTL)\<lparr> do_separation_line := False \<rparr>,
        clock_reads = 0 \<rparr>
     = \<lparr> ps_pages_string = [],
        page_layout = (sample_layout 2 PANGO_DIRECTION_RTL)\<lparr> do_separation_line := False \<rparr>,
        clock_reads = 0 \<rparr>"
proof -
  have need: "need_next_column sample_rounding (sample_layout 2 PANGO_DIRECTION_RTL)
      (flow_start\<lparr> prev_line_link := Some (sample_line ''a'' 20480 1) \<rparr>) (sample_line ''b'' 20480 0)"
    by (simp add: need_next_column_def sample_defs)
  have col: "column_idx (flow_start\<lparr> prev_line_link := Some (sample_line ''a'' 20480 1) \<rparr>) + 1
      \<noteq> num_columns (sample_layout 2 PANGO_DIRECTION_RTL)"
    by (simp add: sample_defs)
  have on: "do_separation_line (page_layout
      \<lparr> ps_pages_string = [], page_layout = sample_layout 2 PANGO_DIRECTION_RTL, clock_reads = 0 \<rparr>)"
    by (simp add: sample_defs)
  have off: "\<not> do_separation_line (page_layout \<lparr> ps_pages_string = [],
        page_layout = (sample_layout 2 PANGO_DIRECTION_RTL)\<lparr> do_separation_line := False \<rparr>,
        clock_reads = 0 \<rparr>)"
    by simp
  note a = eject_column_call [where rnd = sample_rounding
      and pl = "sample_layout 2 PANGO_DIRECTION_RTL" and nh = False
      and s = "flow_start\<lparr> prev_line_link := Some (sample_line ''a'' 20480 1) \<rparr>"
      and l = "sample_line ''b'' 20480 0" and k = 1
      and w = "\<lparr> ps_pages_string = [], page_layout = sample_layout 2 PANGO_DIRECTION_RTL,
                 clock_reads = 0 \<rparr>"
      and lay = "sample_layout 2 PANGO_DIRECTION_RTL"]
  note b = eject_column_call [where k = 1
      and w = "\<lparr> ps_pages_string = [],
                 page_layout = (sample_layout 2 PANGO_DIRECTION_RTL)\<lparr> do_separation_line := False \<rparr>,
                 clock_reads = 0 \<rparr>"
      and lay = "sample_layout 3 PANGO_DIRECTION_RTL"]
  have 1: "fst (output_line sample_rounding (sample_layout 2 PANGO_DIRECTION_RTL) False
        (flow_start\<lparr> prev_line_link := Some (sample_line ''a'' 20480 1) \<rparr>) (sample_line ''b'' 20480 0))
     = [EjectColumn 1, DrawLine 1 20480 (sample_pango_line ''b'' 51200 20480)]"
    using a need col by (simp add: sample_defs)
  have 2: "eject_column_idx (sample_layout 2 PANGO_DIRECTION_RTL) 1 = 1"
    using a by (simp add: sample_defs)
  have 3: "eject_column_idx (sample_layout 3 PANGO_DIRECTION_RTL) 1 = 2"
    using b by (simp add: sample_defs)
  have 4: "eject_column_x_pos (sample_layout 2 PANGO_DIRECTION_RTL) 1 = 256"
    using a 2 by (simp add: sample_defs)
  have 5: "ps_pages_string (eject_column 1
        \<lparr> ps_pages_string = [], page_layout = sample_layout 2 PANGO_DIRECTION_RTL, clock_reads = 0 \<rparr>)
     = [PsColumnLine 256 136 256 36]"
    using a on 4 by (simp add: sample_defs signed_divide_int_def)
  have 6: "eject_column 1 \<lparr> ps_pages_string = [],
        page_layout = (sample_layout 2 PANGO_DIRECTION_RTL)\<lparr> do_separation_line := False \<rparr>,
        clock_reads = 0 \<rparr>
     = \<lparr> ps_pages_string = [],
        page_layout = (sample_layout 2 PANGO_DIRECTION_RTL)\<lparr> do_separation_line := False \<rparr>,
        clock_reads = 0 \<rparr>"
    using b off by blast
  show ?thesis
    using need 1 2 3 4 5 6 by blast
qed

text \<open>
  C8 as it is stated has \<^verbatim>\<open>eject_column\<close> called with the index of the column just
  left. With two columns, the line after a form feed leaves column 0, and the call
  made is \<^verbatim>\<open>eject_column\<close> of 1; no call has the index 0.
\<close>

theorem eject_column_old_index_counterexample:
  "fst (output_pages sample_rounding [sample_line ''a'' 20480 1, sample_line ''b'' 20480 0]
          (sample_layout 2 PANGO_DIRECTION_LTR) False)
     = [StartPage 1, DrawLine 0 20480 (sample_pango_line ''a'' 51200 20480),
        EjectColumn 1, DrawLine 1 20480 (sample_pango_line ''b'' 51200 20480), EjectPage]
   \<and> EjectColumn 0 \<notin> set (fst (output_pages sample_rounding [sample_line ''a'' 20480 1, sample_line ''b'' 20480 0]
          (sample_layout 2 PANGO_DIRECTION_LTR) False))"
  by (simp add: output_pages_eq output_lines_Cons output_line_def next_column_def
        need_next_column_def pango_column_height_def sample_defs)

subsection \<open>Writing the pages\<close>

lemma header_layout_flag:
  "do_separation_line (page_layout (draw_page_header_line_to_page rnd env ft p w)) =
     do_separation_line (page_layout w)"
  by (simp add: draw_page_header_line_to_page_def Let_def case_prod_beta)

lemma header_column_lines:
  "filter is_column_line (ps_pages_string (draw_page_header_line_to_page rnd env ft p w)) =
     filter is_column_line (ps_pages_string w)"
  by (simp add: draw_page_header_line_to_page_def Let_def case_prod_beta)

lemma perform_layout_flag:
  "do_separation_line (page_layout (perform rnd env w e)) = do_separation_line (page_layout w)"
  by (cases e)
     (simp_all add: header_layout_flag start_page_def eject_page_def eject_column_def
        draw_line_to_page_def Let_def)

lemma perform_column_lines:
  "do_separation_line (page_layout w) \<Longrightarrow>
     length (filter is_column_line (ps_pages_string (perform rnd env w e))) =
       length (filter is_column_line (ps_pages_string w)) + (if is_eject_column e then 1 else 0)"
  by (cases e)
     (simp_all add: header_column_lines start_page_def eject_page_def eject_column_on
        draw_line_to_page_def Let_def)

lemma foldl_perform_column_lines:
  "do_separation_line (page_layout w) \<Longrightarrow>
     length (filter is_column_line (ps_pages_string (foldl (perform rnd env) w evs))) =
       length (filter is_column_line (ps_pages_string w)) + length (filter is_eject_column evs)"
proof (induction evs arbitrary: w)
  case Nil
  then show ?case by simp
next
  case (Cons e evs)
  have "do_separation_line (page_layout (perform rnd env w e))"
    using Cons.prems by (simp add: perform_layout_flag)
  then show ?case
    using Cons.IH [of "perform rnd env w e"] Cons.prems
    by (simp add: perform_column_lines)
qed

lemma main_page_layout_flag:
  "main_page_layout pp opts = Inr lay \<Longrightarrow> do_separation_line lay"
  by (auto simp: main_page_layout_def Let_def case_prod_beta split: if_splits)

text \<open>
  C10. Whatever the options, the layout that \<^verbatim>\<open>main\<close> computes has the separation line
  flag set, and the page header routine, the only one to change the layout, leaves
  the flag as it is. So every call of \<^verbatim>\<open>eject_column\<close> on that layout writes its line: the
  pages written hold as many separation lines as \<^verbatim>\<open>output_pages\<close> made \<^verbatim>\<open>eject_column\<close>
  calls.
\<close>

theorem separation_line_always_drawn:
  assumes "main_page_layout pp opts = Inr lay"
  shows "do_separation_line lay
         \<and> (\<forall>h f. do_separation_line (lay\<lparr> header_height := h, footer_height := f \<rparr>))
         \<and> (page_layout w = lay \<longrightarrow>
              length (ps_pages_string (eject_column k w)) = Suc (length (ps_pages_string w)))
         \<and> length (filter is_column_line (write_pages rnd env ls lay nh)) =
             length (filter is_eject_column (fst (output_pages rnd ls lay nh)))"
proof -
  have flag: "do_separation_line lay"
    using assms by (rule main_page_layout_flag)
  have draws: "page_layout w = lay \<Longrightarrow>
      length (ps_pages_string (eject_column k w)) = Suc (length (ps_pages_string w))"
    using flag by (simp add: eject_column_on)
  have count: "length (filter is_column_line (write_pages rnd env ls lay nh)) =
      length (filter is_eject_column (fst (output_pages rnd ls lay nh)))"
    using flag
      foldl_perform_column_lines [of "\<lparr> ps_pages_string = [], page_layout = lay, clock_reads = 0 \<rparr>"
        rnd env "fst (output_pages rnd ls lay nh)"]
    by (simp add: write_pages_def)
  show ?thesis
    using flag draws count by simp
qed

theorem separation_line_always_drawn_witness:
  "main_page_layout 1024 (sample_options 2 36) =
     Inr ((sample_layout 2 PANGO_DIRECTION_LTR)\<lparr> column_width := 241, column_height := 769,
            page_width := 595, page_height := 841 \<rparr>)
   \<and> length (filter is_column_line (write_pages sample_rounding (sample_environment ''Fri Oct 30 10:00:00 2026'')
        [sample_line ''a'' 20480 1, sample_line ''b'' 20480 0]
        ((sample_layout 2 PANGO_DIRECTION_LTR)\<lparr> column_width := 241, column_height := 769,
            page_width := 595, page_height := 841 \<rparr>) False)) = 1"
proof -
  have lay: "main_page_layout 1024 (sample_options 2 36) =
     Inr ((sample_layout 2 PANGO_DIRECTION_LTR)\<lparr> column_width := 241, column_height := 769,
            page_width := 595, page_height := 841 \<rparr>)"
    by (simp add: main_page_layout_def signed_divide_int_def sample_defs)
  have evs: "fst (output_pages sample_rounding [sample_line ''a'' 20480 1, sample_line ''b'' 20480 0]
        ((sample_layout 2 PANGO_DIRECTION_LTR)\<lparr> column_width := 241, column_height := 769,
            page_width := 595, page_height := 841 \<rparr>) False)
      = [StartPage 1, DrawLine 0 20480 (sample_pango_line ''a'' 51200 20480),
         EjectColumn 1, DrawLine 1 20480 (sample_pango_line ''b'' 51200 20480), EjectPage]"
    by (simp add: output_pages_eq output_lines_Cons output_line_def next_column_def
        need_next_column_def pango_column_height_def sample_defs)
  show ?thesis
    using separation_line_always_drawn [OF lay, of _ _ sample_rounding "sample_environment ''Fri Oct 30 10:00:00 2026''"
        "[sample_line ''a'' 20480 1, sample_line ''b'' 20480 0]" False] lay evs
    by simp
qed

subsection \<open>The clock\<close>

lemma perform_other_env:
  "\<not> is_page_header e \<Longrightarrow> perform rnd env w e = perform rnd env' w e"
  by (cases e) simp_all

lemma perform_clock_reads:
  "clock_reads (perform rnd env w e) = clock_reads w + (if is_page_header e then 1 else 0)"
  by (cases e)
     (simp_all add: start_page_def eject_page_def eject_column_def draw_line_to_page_def
        draw_page_header_line_to_page_def Let_def case_prod_beta)

lemma header_same_date:
  "env_markup_lines env = env_markup_lines env' \<Longrightarrow>
   env_date env (clock_reads w) = env_date env' (clock_reads w) \<Longrightarrow>
     draw_page_header_line_to_page rnd env ft p w = draw_page_header_line_to_page rnd env' ft p w"
  by (simp add: draw_page_header_line_to_page_def)

lemma foldl_perform_same_dates:
  assumes lines: "env_markup_lines env = env_markup_lines env'"
  shows "(\<And>k. clock_reads w \<le> k \<Longrightarrow> k < clock_reads w + length (filter is_page_header evs)
            \<Longrightarrow> env_date env k = env_date env' k) \<Longrightarrow>
     foldl (perform rnd env) w evs = foldl (perform rnd env') w evs"
proof (induction evs arbitrary: w)
  case Nil
  show ?case by simp
next
  case (Cons e evs)
  have step: "perform rnd env w e = perform rnd env' w e"
  proof (cases "is_page_header e")
    case True
    then obtain p where e: "e = PageHeader p"
      by (cases e) simp_all
    have "env_date env (clock_reads w) = env_date env' (clock_reads w)"
      by (rule Cons.prems) (simp_all add: True)
    then have "draw_page_header_line_to_page rnd env False p w
        = draw_page_header_line_to_page rnd env' False p w"
      by (rule header_same_date [OF lines])
    then show ?thesis
      by (simp only: e perform.simps)
  next
    case False
    then show ?thesis by (rule perform_other_env)
  qed
  have reads: "clock_reads (perform rnd env' w e) = clock_reads w + (if is_page_header e then 1 else 0)"
    by (rule perform_clock_reads)
  have "foldl (perform rnd env) (perform rnd env' w e) evs = foldl (perform rnd env') (perform rnd env' w e) evs"
  proof (rule Cons.IH)
    fix k
    assume "clock_reads (perform rnd env' w e) \<le> k"
      and "k < clock_reads (perform rnd env' w e) + length (filter is_page_header evs)"
    then have "clock_reads w \<le> k"
      and "k < clock_reads w + length (filter is_page_header (e # evs))"
      by (simp_all add: reads split: if_splits)
    then show "env_date env k = env_date env' k"
      by (rule Cons.prems)
  qed
  then show ?case
    by (simp only: foldl_Cons step)
qed

lemma foldl_perform_no_header:
  "(\<And>e. e \<in> set evs \<Longrightarrow> \<not> is_page_header e) \<Longrightarrow>
     foldl (perform rnd env) w evs = foldl (perform rnd env') w evs"
proof (induction evs arbitrary: w)
  case Nil
  show ?case by simp
next
  case (Cons e evs)
  have "\<not> is_page_header e"
    by (rule Cons.prems) simp
  then have step: "perform rnd env w e = perform rnd env' w e"
    by (rule perform_other_env)
  have "foldl (perform rnd env) (perform rnd env' w e) evs = foldl (perform rnd env') (perform rnd env' w e) evs"
    by (rule Cons.IH) (simp add: Cons.prems)
  then show ?case
    by (simp only: foldl_Cons step)
qed

lemma headers_output_line:
  "length (filter is_page_header (fst (output_line rnd pl nh s l))) =
     (if nh then nat (page_idx (snd (output_line rnd pl nh s l)) - page_idx s) else 0)"
  by (cases rule: output_line_cases [of rnd pl s l])
     (simp_all add: output_line_same output_line_column output_line_page)

lemma page_idx_output_line:
  "page_idx s \<le> page_idx (snd (output_line rnd pl nh s l))"
  by (cases rule: output_line_cases [of rnd pl s l])
     (simp_all add: output_line_same output_line_column output_line_page)

lemma page_idx_output_lines:
  "page_idx s \<le> snd (output_lines rnd pl nh s ls)"
  using page_markers_output_lines [of s rnd pl nh ls] by (rule conjunct2)

lemma headers_output_lines:
  "length (filter is_page_header (fst (output_lines rnd pl nh s ls))) =
     (if nh then nat (snd (output_lines rnd pl nh s ls) - page_idx s) else 0)"
proof (induction ls arbitrary: s)
  case Nil
  show ?case by simp
next
  case (Cons l ls)
  let ?s' = "snd (output_line rnd pl nh s l)"
  let ?n = "snd (output_lines rnd pl nh ?s' ls)"
  have a: "page_idx s \<le> page_idx ?s'"
    by (rule page_idx_output_line)
  have b: "page_idx ?s' \<le> ?n"
    by (rule page_idx_output_lines)
  have "nat (page_idx ?s' - page_idx s) + nat (?n - page_idx ?s') = nat (?n - page_idx s)"
    using a b by linarith
  then show ?case
    using Cons.IH [of ?s'] headers_output_line [of rnd pl nh s l]
    by (cases nh) (simp_all add: output_lines_Cons)
qed

lemma headers_output_pages:
  "length (filter is_page_header (fst (output_pages rnd ls pl nh))) =
     (if nh then nat (snd (output_pages rnd ls pl nh)) else 0)"
proof -
  have "1 \<le> snd (output_lines rnd pl nh flow_start ls)"
    using page_idx_output_lines [of flow_start rnd pl nh ls] by (simp add: flow_start_def)
  then have "Suc (nat (snd (output_lines rnd pl nh flow_start ls) - 1))
      = nat (snd (output_lines rnd pl nh flow_start ls))"
    by linarith
  then show ?thesis
    using headers_output_lines [of rnd pl nh flow_start ls]
    by (cases nh) (simp_all add: output_pages_eq flow_start_def)
qed

section \<open>Determinism\<close>

text \<open>
  C5, as amended. The calls of \<^verbatim>\<open>output_pages\<close> are a function of the lines, the layout
  and the header flag. Without page headers the pages written are the same in every
  environment. With page headers each header holds the date read from the clock when
  the header is drawn: two runs write the same pages if Pango lays out the headers the
  same way and the clock readings of the runs agree, one reading per page.
\<close>

theorem pages_depend_on_clock_only_in_headers:
  "write_pages rnd env ls pl False = write_pages rnd env' ls pl False
   \<and> (env_markup_lines env = env_markup_lines env'
        \<and> (\<forall>k < nat (snd (output_pages rnd ls pl True)). env_date env k = env_date env' k)
      \<longrightarrow> write_pages rnd env ls pl True = write_pages rnd env' ls pl True)"
proof -
  let ?w = "\<lparr> ps_pages_string = [], page_layout = pl, clock_reads = 0 \<rparr>"
  have off: "write_pages rnd env ls pl False = write_pages rnd env' ls pl False"
  proof -
    have "filter is_page_header (fst (output_pages rnd ls pl False)) = []"
      using headers_output_pages [of rnd ls pl False] by simp
    then have "\<not> is_page_header e" if "e \<in> set (fst (output_pages rnd ls pl False))" for e
      using that by (simp add: filter_empty_conv)
    then have "foldl (perform rnd env) ?w (fst (output_pages rnd ls pl False)) =
        foldl (perform rnd env') ?w (fst (output_pages rnd ls pl False))"
      by (rule foldl_perform_no_header)
    then show ?thesis
      by (simp only: write_pages_def)
  qed
  have on: "write_pages rnd env ls pl True = write_pages rnd env' ls pl True"
    if lines: "env_markup_lines env = env_markup_lines env'"
      and dates: "\<forall>k < nat (snd (output_pages rnd ls pl True)). env_date env k = env_date env' k"
  proof -
    have "foldl (perform rnd env) ?w (fst (output_pages rnd ls pl True)) =
        foldl (perform rnd env') ?w (fst (output_pages rnd ls pl True))"
    proof (rule foldl_perform_same_dates [OF lines])
      fix k
      assume "k < clock_reads ?w + length (filter is_page_header (fst (output_pages rnd ls pl True)))"
      then have "k < nat (snd (output_pages rnd ls pl True))"
        by (simp add: headers_output_pages)
      then show "env_date env k = env_date env' k"
        using dates by simp
    qed
    then show ?thesis
      by (simp only: write_pages_def)
  qed
  show ?thesis
    using off on by blast
qed

theorem pages_depend_on_clock_only_in_headers_witness:
  "write_pages sample_rounding (sample_environment ''Fri Oct 30 10:00:00 2026'')
       [sample_line ''a'' 20480 0] (sample_layout 1 PANGO_DIRECTION_LTR) True
     = write_pages sample_rounding ((sample_environment ''Fri Oct 30 10:00:00 2026'')
                      \<lparr> env_date := (\<lambda>k. if k = 0 then ''Fri Oct 30 10:00:00 2026''
                                           else ''Fri Oct 30 10:00:01 2026'') \<rparr>)
       [sample_line ''a'' 20480 0] (sample_layout 1 PANGO_DIRECTION_LTR) True
   \<and> write_pages sample_rounding (sample_environment ''Fri Oct 30 10:00:00 2026'')
       [sample_line ''a'' 20480 0] (sample_layout 1 PANGO_DIRECTION_LTR) False
     = write_pages sample_rounding (sample_environment ''Fri Oct 30 10:00:01 2026'')
       [sample_line ''a'' 20480 0] (sample_layout 1 PANGO_DIRECTION_LTR) False"
proof -
  have n: "snd (output_pages sample_rounding [sample_line ''a'' 20480 0] (sample_layout 1 PANGO_DIRECTION_LTR) True) = 1"
    by (simp add: output_pages_eq output_lines_Cons output_line_def next_column_def
        need_next_column_def pango_column_height_def sample_defs)
  have lines: "env_markup_lines (sample_environment ''Fri Oct 30 10:00:00 2026'')
      = env_markup_lines ((sample_environment ''Fri Oct 30 10:00:00 2026'')
                      \<lparr> env_date := (\<lambda>k. if k = 0 then ''Fri Oct 30 10:00:00 2026''
                                           else ''Fri Oct 30 10:00:01 2026'') \<rparr>)"
    by simp
  have dates: "\<forall>k < nat (snd (output_pages sample_rounding [sample_line ''a'' 20480 0]
          (sample_layout 1 PANGO_DIRECTION_LTR) True)).
      env_date (sample_environment ''Fri Oct 30 10:00:00 2026'') k
      = env_date ((sample_environment ''Fri Oct 30 10:00:00 2026'')
                      \<lparr> env_date := (\<lambda>k. if k = 0 then ''Fri Oct 30 10:00:00 2026''
                                           else ''Fri Oct 30 10:00:01 2026'') \<rparr>) k"
    by (simp add: n sample_environment_def)
  show ?thesis
    using pages_depend_on_clock_only_in_headers [of sample_rounding
        "sample_environment ''Fri Oct 30 10:00:00 2026''" "[sample_line ''a'' 20480 0]"
        "sample_layout 1 PANGO_DIRECTION_LTR"
        "(sample_environment ''Fri Oct 30 10:00:00 2026'')
           \<lparr> env_date := (\<lambda>k. if k = 0 then ''Fri Oct 30 10:00:00 2026''
                                else ''Fri Oct 30 10:00:01 2026'') \<rparr>"]
      pages_depend_on_clock_only_in_headers [of sample_rounding
        "sample_environment ''Fri Oct 30 10:00:00 2026''" "[sample_line ''a'' 20480 0]"
        "sample_layout 1 PANGO_DIRECTION_LTR" "sample_environment ''Fri Oct 30 10:00:01 2026''"]
      lines dates
    by blast
qed

text \<open>
  C5 as it is stated has the page headers the same in two runs. Two runs on the same
  lines, layout and header flag, one second apart, write different pages: the first
  line of the header is the date.
\<close>

theorem header_date_counterexample:
  "write_pages sample_rounding (sample_environment ''Fri Oct 30 10:00:00 2026'') []
       (sample_layout 1 PANGO_DIRECTION_LTR) True
     = [PsPage 1 1,
        PsLayoutLine 36 132 (sample_pango_line ''Fri Oct 30 10:00:00 2026'' 51200 12288),
        PsLayoutLine 111 132 (sample_pango_line ''stdin'' 51200 12288),
        PsLayoutLine 186 132 (sample_pango_line ''Page'' 51200 12288),
        PsHeaderRule 36 132 236 132,
        PsShowpage]
   \<and> write_pages sample_rounding (sample_environment ''Fri Oct 30 10:00:01 2026'') []
       (sample_layout 1 PANGO_DIRECTION_LTR) True
     = [PsPage 1 1,
        PsLayoutLine 36 132 (sample_pango_line ''Fri Oct 30 10:00:01 2026'' 51200 12288),
        PsLayoutLine 111 132 (sample_pango_line ''stdin'' 51200 12288),
        PsLayoutLine 186 132 (sample_pango_line ''Page'' 51200 12288),
        PsHeaderRule 36 132 236 132,
        PsShowpage]
   \<and> write_pages sample_rounding (sample_environment ''Fri Oct 30 10:00:00 2026'') []
       (sample_layout 1 PANGO_DIRECTION_LTR) True
     \<noteq> write_pages sample_rounding (sample_environment ''Fri Oct 30 10:00:01 2026'') []
       (sample_layout 1 PANGO_DIRECTION_LTR) True"
  by (simp add: write_pages_def output_pages_eq start_page_def eject_page_def
        draw_page_header_line_to_page_def signed_divide_int_def sample_defs)

lemma started_pages_markers:
  "started_pages (filter is_page_marker evs) = started_pages evs"
  by (induction evs rule: started_pages.induct) simp_all

lemma started_pages_concat:
  "started_pages (concat (map (\<lambda>k. [StartPage k, EjectPage]) ks)) = ks"
  by (induction ks) simp_all

section \<open>Pages and columns\<close>

text \<open>
  C3, as amended. For a layout with at least one column, and every list of lines, also
  the empty one: the \<^verbatim>\<open>start_page\<close> and \<^verbatim>\<open>eject_page\<close> calls alternate, from \<^verbatim>\<open>start_page\<close>
  of page 1 to the \<^verbatim>\<open>eject_page\<close> that is the last call of all; the pages started are
  1, 2, ... up to the page count returned, which is their number; and no page has more
  \<^verbatim>\<open>eject_column\<close> calls than the number of columns minus one.
\<close>

theorem pages_balanced:
  assumes "1 \<le> num_columns pl"
  shows "filter is_page_marker (fst (output_pages rnd ls pl nh)) =
           concat (map (\<lambda>k. [StartPage k, EjectPage]) [1 .. snd (output_pages rnd ls pl nh)])
         \<and> started_pages (fst (output_pages rnd ls pl nh)) = [1 .. snd (output_pages rnd ls pl nh)]
         \<and> int (length (started_pages (fst (output_pages rnd ls pl nh)))) = snd (output_pages rnd ls pl nh)
         \<and> last (fst (output_pages rnd ls pl nh)) = EjectPage
         \<and> (\<forall>c \<in> set (column_advances 0 (fst (output_pages rnd ls pl nh))).
               int c \<le> num_columns pl - 1)"
proof -
  let ?evs = "fst (output_pages rnd ls pl nh)" and ?n = "snd (output_pages rnd ls pl nh)"
  have both: "filter is_page_marker ?evs = concat (map (\<lambda>k. [StartPage k, EjectPage]) [1 .. ?n])
      \<and> 1 \<le> ?n"
    using page_markers_output_lines [of flow_start rnd pl nh ls]
    by (cases nh) (simp_all add: output_pages_eq flow_start_def)
  then have markers: "filter is_page_marker ?evs
      = concat (map (\<lambda>k. [StartPage k, EjectPage]) [1 .. ?n])"
    and pos: "1 \<le> ?n"
    by simp_all
  have "started_pages (filter is_page_marker ?evs) = [1 .. ?n]"
    by (simp only: markers started_pages_concat)
  then have started: "started_pages ?evs = [1 .. ?n]"
    by (simp only: started_pages_markers)
  have count: "int (length (started_pages ?evs)) = ?n"
    using pos by (simp add: started)
  have final: "last ?evs = EjectPage"
    using last_output_lines [of rnd pl nh flow_start ls]
    by (simp add: output_pages_eq)
  have columns: "\<forall>c \<in> set (column_advances 0 ?evs). int c \<le> num_columns pl - 1"
    using column_advances_output_lines [of flow_start pl rnd nh ls] assms
    by (cases nh) (simp_all add: output_pages_eq flow_start_def)
  show ?thesis
    using markers started count final columns by blast
qed

theorem pages_balanced_witness:
  "1 \<le> num_columns (sample_layout 2 PANGO_DIRECTION_LTR)
   \<and> output_pages sample_rounding [sample_line ''a'' 20480 1, sample_line ''b'' 20480 1, sample_line ''c'' 20480 0]
        (sample_layout 2 PANGO_DIRECTION_LTR) True
     = ([StartPage 1, PageHeader 1, DrawLine 0 20480 (sample_pango_line ''a'' 51200 20480),
         EjectColumn 1, DrawLine 1 20480 (sample_pango_line ''b'' 51200 20480),
         EjectPage, StartPage 2, PageHeader 2,
         DrawLine 0 20480 (sample_pango_line ''c'' 51200 20480), EjectPage], 2)
   \<and> started_pages (fst (output_pages sample_rounding
        [sample_line ''a'' 20480 1, sample_line ''b'' 20480 1, sample_line ''c'' 20480 0]
        (sample_layout 2 PANGO_DIRECTION_LTR) True)) = [1, 2]
   \<and> column_advances 0 (fst (output_pages sample_rounding
        [sample_line ''a'' 20480 1, sample_line ''b'' 20480 1, sample_line ''c'' 20480 0]
        (sample_layout 2 PANGO_DIRECTION_LTR) True)) = [1, 0]"
proof -
  have cols: "1 \<le> num_columns (sample_layout 2 PANGO_DIRECTION_LTR)"
    by (simp add: sample_defs)
  have run: "output_pages sample_rounding [sample_line ''a'' 20480 1, sample_line ''b'' 20480 1, sample_line ''c'' 20480 0]
        (sample_layout 2 PANGO_DIRECTION_LTR) True
     = ([StartPage 1, PageHeader 1, DrawLine 0 20480 (sample_pango_line ''a'' 51200 20480),
         EjectColumn 1, DrawLine 1 20480 (sample_pango_line ''b'' 51200 20480),
         EjectPage, StartPage 2, PageHeader 2,
         DrawLine 0 20480 (sample_pango_line ''c'' 51200 20480), EjectPage], 2)"
    by (simp add: output_pages_eq output_lines_Cons output_line_def next_column_def
        need_next_column_def pango_column_height_def sample_defs)
  show ?thesis
    using pages_balanced [OF cols, of sample_rounding
        "[sample_line ''a'' 20480 1, sample_line ''b'' 20480 1, sample_line ''c'' 20480 0]" True]
      cols run
    by simp
qed

text \<open>
  C3 as it is stated holds for every layout. With -1 columns, which \<^verbatim>\<open>main\<close> accepts,
  the column index never meets the number of columns: the one page of a form feed and
  two lines has 1 \<^verbatim>\<open>eject_column\<close> call, more than -1 - 1.
\<close>

theorem negative_columns_counterexample:
  "fst (output_pages sample_rounding [sample_line ''a'' 20480 1, sample_line ''b'' 20480 0]
          (sample_layout (- 1) PANGO_DIRECTION_LTR) False)
     = [StartPage 1, DrawLine 0 20480 (sample_pango_line ''a'' 51200 20480),
        EjectColumn 1, DrawLine 1 20480 (sample_pango_line ''b'' 51200 20480), EjectPage]
   \<and> column_advances 0 (fst (output_pages sample_rounding [sample_line ''a'' 20480 1, sample_line ''b'' 20480 0]
          (sample_layout (- 1) PANGO_DIRECTION_LTR) False)) = [1]
   \<and> \<not> int 1 \<le> num_columns (sample_layout (- 1) PANGO_DIRECTION_LTR) - 1"
  by (simp add: output_pages_eq output_lines_Cons output_line_def next_column_def
        need_next_column_def pango_column_height_def sample_defs)

lemma main_page_layout_Inr:
  assumes "opt_columns opts \<noteq> 0"
  shows "\<exists>lay. main_page_layout pp opts = Inr lay
           \<and> num_columns lay = opt_columns opts
           \<and> top_margin lay = opt_top_margin opts
           \<and> bottom_margin lay = opt_bottom_margin opts
           \<and> left_margin lay = opt_left_margin opts
           \<and> right_margin lay = opt_right_margin opts
           \<and> header_sep lay = (if opt_header opts then 20 else 0)
           \<and> column_height lay =
               page_height lay - top_margin lay - header_sep lay - bottom_margin lay
           \<and> column_width lay =
               (page_width lay - left_margin lay - right_margin lay
                  - (if opt_columns opts = 1 then 0 else 40 * (opt_columns opts - 1)))
                 sdiv opt_columns opts"
  using assms by (simp add: main_page_layout_def Let_def case_prod_beta)

lemma hd_output_pages:
  "hd (fst (output_pages rnd ls pl nh)) = StartPage 1"
  by (simp add: output_pages_eq)

lemma last_output_pages:
  "last (fst (output_pages rnd ls pl nh)) = EjectPage"
  using last_output_lines [of rnd pl nh flow_start ls]
  by (simp add: output_pages_eq)

lemma drawn_lines_output_pages:
  "drawn_lines (fst (output_pages rnd ls pl nh)) = map pango_line ls"
  by (simp add: output_pages_eq drawn_lines_append drawn_lines_output_lines)

section \<open>The layout is not validated\<close>

text \<open>
  C4, as amended. \<^verbatim>\<open>main\<close> reports no configuration error. For every setting of the
  options with a number of columns other than 0, also when the margins exceed the page
  or the number of columns is negative, it computes the layout, with the column height
  page height - top margin - header separation - bottom margin and the column width
  (page width - left margin - right margin - total gutter) / number of columns, of
  whatever sign, and \<^verbatim>\<open>output_pages\<close> runs on it: its calls begin with \<^verbatim>\<open>start_page\<close> of
  page 1, end with \<^verbatim>\<open>eject_page\<close>, and draw every line of the input.
\<close>

theorem layout_never_rejected:
  assumes "opt_columns opts \<noteq> 0"
  shows "\<exists>lay evs n.
           main_page_layout pp opts = Inr lay
           \<and> num_columns lay = opt_columns opts
           \<and> column_height lay =
               page_height lay - opt_top_margin opts - header_sep lay - opt_bottom_margin opts
           \<and> column_width lay =
               (page_width lay - opt_left_margin opts - opt_right_margin opts
                  - (if opt_columns opts = 1 then 0 else 40 * (opt_columns opts - 1)))
                 sdiv opt_columns opts
           \<and> main_pages rnd pp opts paragraphs = Inr (evs, n)
           \<and> (evs, n) = output_pages rnd (split_paragraphs_into_lines paragraphs) lay (opt_header opts)
           \<and> hd evs = StartPage 1
           \<and> last evs = EjectPage
           \<and> drawn_lines evs = concat (map para_layout paragraphs)"
proof -
  obtain lay where lay: "main_page_layout pp opts = Inr lay"
    and cols: "num_columns lay = opt_columns opts"
    and margins: "top_margin lay = opt_top_margin opts" "bottom_margin lay = opt_bottom_margin opts"
      "left_margin lay = opt_left_margin opts" "right_margin lay = opt_right_margin opts"
    and height: "column_height lay =
        page_height lay - top_margin lay - header_sep lay - bottom_margin lay"
    and width: "column_width lay =
        (page_width lay - left_margin lay - right_margin lay
           - (if opt_columns opts = 1 then 0 else 40 * (opt_columns opts - 1)))
          sdiv opt_columns opts"
    using main_page_layout_Inr [OF assms, of pp] by blast
  let ?ls = "split_paragraphs_into_lines paragraphs"
  let ?r = "output_pages rnd ?ls lay (opt_header opts)"
  have run: "main_pages rnd pp opts paragraphs = Inr (fst ?r, snd ?r)"
    by (simp add: main_pages_def lay)
  have all: "drawn_lines (fst ?r) = concat (map para_layout paragraphs)"
    using split_paragraphs_loop_lines [of paragraphs "[]"]
    by (simp add: drawn_lines_output_pages split_paragraphs_into_lines_def)
  show ?thesis
    using lay cols height width run all hd_output_pages [of rnd ?ls lay "opt_header opts"]
      last_output_pages [of rnd ?ls lay "opt_header opts"]
    unfolding margins
    by (intro exI [of _ lay] exI [of _ "fst ?r"] exI [of _ "snd ?r"]) simp
qed

theorem layout_never_rejected_witness:
  "opt_columns (sample_options 1 900) \<noteq> 0
   \<and> (\<exists>lay evs n. main_page_layout 1024 (sample_options 1 900) = Inr lay
         \<and> column_height lay = - 95
         \<and> main_pages sample_rounding 1024 (sample_options 1 900) [sample_paragraph [''a''] 0] = Inr (evs, n)
         \<and> drawn_lines evs = [sample_pango_line ''a'' 51200 20480])"
proof -
  have cols: "opt_columns (sample_options 1 900) \<noteq> 0"
    by (simp add: sample_defs)
  obtain lay evs n where lay: "main_page_layout 1024 (sample_options 1 900) = Inr lay"
    and h: "column_height lay =
        page_height lay - opt_top_margin (sample_options 1 900) - header_sep lay
          - opt_bottom_margin (sample_options 1 900)"
    and run: "main_pages sample_rounding 1024 (sample_options 1 900) [sample_paragraph [''a''] 0] = Inr (evs, n)"
    and all: "drawn_lines evs = concat (map para_layout [sample_paragraph [''a''] 0])"
    using layout_never_rejected [OF cols, of 1024 sample_rounding "[sample_paragraph [''a''] 0]"] by blast
  have "page_height lay = 841" and "header_sep lay = 0"
    using lay by (auto simp: main_page_layout_def sample_defs)
  then have "column_height lay = - 95"
    using h by (simp add: sample_defs)
  moreover have "drawn_lines evs = [sample_pango_line ''a'' 51200 20480]"
    using all by (simp add: sample_defs)
  ultimately show ?thesis
    using cols lay run by blast
qed

text \<open>
  C4 as it is stated has the layout rejected when the margins exceed the page or the
  number of columns is below 1. With a top margin of 900 on A4 the column height is -95
  and the pages are written, each line on a page of its own after an empty first page;
  with -1 columns the column width is -603 and the pages are written.
\<close>

theorem margins_beyond_page_counterexample:
  "main_pages sample_rounding 1024 (sample_options 1 900) [sample_paragraph [''a''] 0]
     = Inr ([StartPage 1, EjectPage, StartPage 2,
             DrawLine 0 20480 (sample_pango_line ''a'' 51200 20480), EjectPage], 2)
   \<and> map_sum id column_height (main_page_layout 1024 (sample_options 1 900)) = Inr (- 95)
   \<and> main_pages sample_rounding 1024 (sample_options (- 1) 36) [sample_paragraph [''a''] 0]
     = Inr ([StartPage 1, DrawLine 0 20480 (sample_pango_line ''a'' 51200 20480), EjectPage], 1)
   \<and> map_sum id column_width (main_page_layout 1024 (sample_options (- 1) 36)) = Inr (- 603)
   \<and> map_sum id num_columns (main_page_layout 1024 (sample_options (- 1) 36)) = Inr (- 1)"
  by (simp add: main_pages_def main_page_layout_def split_paragraphs_into_lines_def
        output_pages_eq output_lines_Cons output_line_def next_column_def
        need_next_column_def pango_column_height_def signed_divide_int_def sample_defs)

end
